theory Spec2Isabelle
  imports Main
begin

section \<open>JavaScript strings and primitives\<close>

text \<open>
  A string of the model is the UTF-8 byte sequence of the JavaScript string: ASCII
  characters are single bytes and the literals of the source are written as they stand.
  The only non-ASCII text the source compares or returns is the label of the unknown
  architecture; the console messages are abstracted to the constructors of a datatype.
\<close>

text \<open>
  \<^verbatim>\<open>String.prototype.trim\<close> and \<^verbatim>\<open>parseInt\<close> strip the white space and line terminators of
  ECMAScript: TAB, LF, VT, FF, CR, SP, U+00A0, U+1680, U+2000 to U+200A, U+2028, U+2029,
  U+202F, U+205F, U+3000 and U+FEFF. \<open>dropWhiteSpace\<close> strips them from the front of the
  UTF-8 bytes, \<open>dropWhiteSpaceRev\<close> from the front of the reversed bytes.
\<close>

definition asciiWhiteSpace :: "char \<Rightarrow> bool" where
  "asciiWhiteSpace c \<longleftrightarrow> c \<in> set [CHR 0x09, CHR 0x0A, CHR 0x0B, CHR 0x0C, CHR 0x0D, CHR 0x20]"

definition generalPunctuationSpace :: "char \<Rightarrow> bool" where
  "generalPunctuationSpace c \<longleftrightarrow>
     c \<in> set [CHR 0x80, CHR 0x81, CHR 0x82, CHR 0x83, CHR 0x84, CHR 0x85, CHR 0x86, CHR 0x87,
              CHR 0x88, CHR 0x89, CHR 0x8A, CHR 0xA8, CHR 0xA9, CHR 0xAF]"

fun dropWhiteSpace :: "string \<Rightarrow> string" where
  "dropWhiteSpace [] = []"
| "dropWhiteSpace [a] = (if asciiWhiteSpace a then [] else [a])"
| "dropWhiteSpace [a, b] =
     (if asciiWhiteSpace a then dropWhiteSpace [b]
      else if a = CHR 0xC2 \<and> b = CHR 0xA0 then []
      else [a, b])"
| "dropWhiteSpace (a # b # c # s) =
     (if asciiWhiteSpace a then dropWhiteSpace (b # c # s)
      else if a = CHR 0xC2 \<and> b = CHR 0xA0 then dropWhiteSpace (c # s)
      else if a = CHR 0xE1 \<and> b = CHR 0x9A \<and> c = CHR 0x80 then dropWhiteSpace s
      else if a = CHR 0xE2 \<and> b = CHR 0x80 \<and> generalPunctuationSpace c then dropWhiteSpace s
      else if a = CHR 0xE2 \<and> b = CHR 0x81 \<and> c = CHR 0x9F then dropWhiteSpace s
      else if a = CHR 0xE3 \<and> b = CHR 0x80 \<and> c = CHR 0x80 then dropWhiteSpace s
      else if a = CHR 0xEF \<and> b = CHR 0xBB \<and> c = CHR 0xBF then dropWhiteSpace s
      else a # b # c # s)"

fun dropWhiteSpaceRev :: "string \<Rightarrow> string" where
  "dropWhiteSpaceRev [] = []"
| "dropWhiteSpaceRev [a] = (if asciiWhiteSpace a then [] else [a])"
| "dropWhiteSpaceRev [a, b] =
     (if asciiWhiteSpace a then dropWhiteSpaceRev [b]
      else if b = CHR 0xC2 \<and> a = CHR 0xA0 then []
      else [a, b])"
| "dropWhiteSpaceRev (a # b # c # s) =
     (if asciiWhiteSpace a then dropWhiteSpaceRev (b # c # s)
      else if b = CHR 0xC2 \<and> a = CHR 0xA0 then dropWhiteSpaceRev (c # s)
      else if c = CHR 0xE1 \<and> b = CHR 0x9A \<and> a = CHR 0x80 then dropWhiteSpaceRev s
      else if c = CHR 0xE2 \<and> b = CHR 0x80 \<and> generalPunctuationSpace a then dropWhiteSpaceRev s
      else if c = CHR 0xE2 \<and> b = CHR 0x81 \<and> a = CHR 0x9F then dropWhiteSpaceRev s
      else if c = CHR 0xE3 \<and> b = CHR 0x80 \<and> a = CHR 0x80 then dropWhiteSpaceRev s
      else if c = CHR 0xEF \<and> b = CHR 0xBB \<and> a = CHR 0xBF then dropWhiteSpaceRev s
      else a # b # c # s)"

definition trim :: "string \<Rightarrow> string" where
  "trim s = rev (dropWhiteSpaceRev (rev (dropWhiteSpace s)))"

text \<open>
  \<^verbatim>\<open>toLowerCase\<close> on the ASCII letters. The source compares its result only with the
  one-letter literals \<^verbatim>\<open>"b"\<close>, \<^verbatim>\<open>"m"\<close>, \<^verbatim>\<open>"p"\<close> and \<^verbatim>\<open>'t'\<close>, which no non-ASCII letter
  lowers to, so leaving the other bytes alone changes no comparison.
\<close>

definition lowerChar :: "char \<Rightarrow> char" where
  "lowerChar c =
     (case map_of (zip ''ABCDEFGHIJKLMNOPQRSTUVWXYZ'' ''abcdefghijklmnopqrstuvwxyz'') c of
        Some l \<Rightarrow> l
      | None \<Rightarrow> c)"

definition toLowerCase :: "string \<Rightarrow> string" where
  "toLowerCase s = map lowerChar s"

text \<open>
  A value a selection can produce: \<^verbatim>\<open>null\<close>, a number or a string. The numbers that occur
  are the integers a double can hold and the two infinities (NaN is kept apart, as the
  absence of a number). A value is falsy when it is \<^verbatim>\<open>null\<close>, \<open>0\<close> or the empty string.
\<close>

datatype choice = Null | Num int | Infinity | MinusInfinity | Text string

definition falsy :: "choice \<Rightarrow> bool" where
  "falsy c =
     (case c of
        Null \<Rightarrow> True
      | Num n \<Rightarrow> n = 0
      | Infinity \<Rightarrow> False
      | MinusInfinity \<Rightarrow> False
      | Text s \<Rightarrow> s = [])"

text \<open>
  The Number value of a non-negative integer: the integer itself below \<open>2 ^ 53\<close>; from
  there on the nearest integer with a significand of 53 bits, a tie going to the even
  significand, and \<open>None\<close> (infinity) when that is \<open>2 ^ 1024\<close> or more. \<open>bitLength\<close> is the
  number of binary digits.
\<close>

function bitLength :: "int \<Rightarrow> nat" where
  "bitLength n = (if n \<le> 0 then 0 else Suc (bitLength (n div 2)))"
  by pat_completeness auto
termination
  by (relation "measure nat") auto

declare bitLength.simps [simp del]

definition roundToDouble :: "int \<Rightarrow> int option" where
  "roundToDouble n =
     (if n < 2 ^ 53 then Some n
      else
        (let e = bitLength n - 53;
             q = n div 2 ^ e;
             r = n mod 2 ^ e;
             half = 2 ^ (e - 1);
             q' = (if half < r \<or> (r = half \<and> odd q) then q + 1 else q);
             v = q' * 2 ^ e
         in if 2 ^ 1024 \<le> v then None else Some v))"

definition numberOf :: "int \<Rightarrow> int \<Rightarrow> choice" where
  "numberOf sign mathInt =
     (case roundToDouble mathInt of
        Some v \<Rightarrow> Num (sign * v)
      | None \<Rightarrow> if sign < 0 then MinusInfinity else Infinity)"

text \<open>
  \<^verbatim>\<open>parseInt(string)\<close> without a radix: leading white space is skipped, one sign is
  read, a prefix \<^verbatim>\<open>0x\<close> or \<^verbatim>\<open>0X\<close> selects radix 16, and the longest run of digits of the
  radix is the integer read; whatever follows the digits is ignored. With no digit the
  result is NaN, modelled as \<open>None\<close>; otherwise it is the Number value of the signed
  integer, rounded as Node.js rounds it (ECMAScript allows an implementation to
  approximate a decimal integer beyond its 20th significant digit).
\<close>

definition digitValue :: "char \<Rightarrow> nat option" where
  "digitValue c =
     (let n = (of_char c :: nat) in
      if 48 \<le> n \<and> n \<le> 57 then Some (n - 48)
      else if 97 \<le> n \<and> n \<le> 102 then Some (n - 87)
      else if 65 \<le> n \<and> n \<le> 70 then Some (n - 55)
      else None)"

definition isRadixDigit :: "nat \<Rightarrow> char \<Rightarrow> bool" where
  "isRadixDigit R c = (case digitValue c of None \<Rightarrow> False | Some d \<Rightarrow> d < R)"

definition digitsValue :: "nat \<Rightarrow> string \<Rightarrow> int" where
  "digitsValue R Z =
     foldl (\<lambda>acc c. acc * int R + (case digitValue c of Some d \<Rightarrow> int d | None \<Rightarrow> 0)) 0 Z"

definition parseInt :: "string \<Rightarrow> choice option" where
  "parseInt inputString =
     (let S = dropWhiteSpace inputString;
          sign = (if take 1 S = ''-'' then - 1 else 1 :: int);
          S1 = (if take 1 S = ''+'' \<or> take 1 S = ''-'' then drop 1 S else S);
          hex = (take 2 S1 = ''0x'' \<or> take 2 S1 = ''0X'');
          R = (if hex then 16 else 10);
          S2 = (if hex then drop 2 S1 else S1);
          Z = takeWhile (isRadixDigit R) S2
      in if Z = [] then None else Some (numberOf sign (digitsValue R Z)))"

section \<open>Architecture Resolver (systemUtils.js)\<close>

text \<open>
  The architecture tags are the strings the source returns. The label of the unknown
  architecture is \<^verbatim>\<open>Unknown Architecture(...)\<close> with six CJK characters between the
  parentheses, written here as their UTF-8 bytes.
\<close>

definition X86_64 :: string where "X86_64 = ''X86_64''"
definition X86 :: string where "X86 = ''X86''"
definition ARM64 :: string where "ARM64 = ''ARM64''"
definition ARM32 :: string where "ARM32 = ''ARM32''"

definition Unknown :: string where
  "Unknown = ''Unknown Architecture('' @
     [CHR 0xE6, CHR 0x9C, CHR 0xAA, CHR 0xE7, CHR 0x9F, CHR 0xA5, CHR 0xE7, CHR 0xB3, CHR 0xBB,
      CHR 0xE7, CHR 0xBB, CHR 0x9F, CHR 0xE6, CHR 0x9E, CHR 0xB6, CHR 0xE6, CHR 0x9E, CHR 0x84] @
     '')''"

definition ArchitectureTag :: "string list" where
  "ArchitectureTag = [X86_64, X86, ARM64, ARM32, Unknown]"

text \<open>\<open>getSystemArchitecture\<close>, with the result of \<^verbatim>\<open>os.arch()\<close> as its argument.\<close>

definition getSystemArchitecture :: "string \<Rightarrow> string" where
  "getSystemArchitecture arch =
     (if arch \<in> set [''arm64'', ''aarch64''] then ''ARM64''
      else if arch \<in> set [''arm'', ''armv7l''] then ''ARM32''
      else if arch \<in> set [''ia32''] then ''X86''
      else if arch \<in> set [''x64'', ''amd64''] then ''X86_64''
      else Unknown)"

text \<open>The strings of \<^verbatim>\<open>os.arch()\<close> the source recognises.\<close>

definition recognizedArchitectures :: "string list" where
  "recognizedArchitectures =
     [''arm64'', ''aarch64'', ''arm'', ''armv7l'', ''ia32'', ''x64'', ''amd64'']"

section \<open>Tool Executor: path resolution (toolExecutor.js)\<close>

text \<open>
  A property read \<^verbatim>\<open>obj[key]\<close> on an object parsed from JSON finds the object's own
  property, else the member of \<^verbatim>\<open>Object.prototype\<close> of that name, else \<^verbatim>\<open>undefined\<close>.
  An object is the list of its own properties in the order \<^verbatim>\<open>Object.values\<close> lists
  them, which for keys that are not array indices (no architecture tag is one) is the
  order of declaration. \<^verbatim>\<open>JSON.parse\<close> keeps one property for a key, so no key is
  listed twice; \<open>map_of\<close> reads the own property of a key.
\<close>

definition ObjectPrototypeNames :: "string list" where
  "ObjectPrototypeNames =
     [''constructor'', ''__defineGetter__'', ''__defineSetter__'', ''hasOwnProperty'',
      ''__lookupGetter__'', ''__lookupSetter__'', ''isPrototypeOf'', ''propertyIsEnumerable'',
      ''toString'', ''valueOf'', ''__proto__'', ''toLocaleString'']"

datatype 'a property = Own 'a | Inherited string | Absent

definition getProperty :: "(string \<times> 'a) list \<Rightarrow> string \<Rightarrow> 'a property" where
  "getProperty obj key =
     (case map_of obj key of
        Some v \<Rightarrow> Own v
      | None \<Rightarrow> if key \<in> set ObjectPrototypeNames then Inherited key else Absent)"

text \<open>
  The values \<^verbatim>\<open>resolvedPath\<close> can hold: \<^verbatim>\<open>undefined\<close>, a string of the configuration,
  or a member of \<^verbatim>\<open>Object.prototype\<close> (a function or an object, always truthy).
\<close>

datatype resolved = Undefined | Str string | PrototypeMember string

datatype toolPath = PathString string | PathObject "(string \<times> string) list"

definition pathProperty :: "(string \<times> string) list \<Rightarrow> string \<Rightarrow> resolved" where
  "pathProperty obj key =
     (case getProperty obj key of
        Own v \<Rightarrow> Str v
      | Inherited n \<Rightarrow> PrototypeMember n
      | Absent \<Rightarrow> Undefined)"

definition truthy :: "resolved \<Rightarrow> bool" where
  "truthy v = (case v of Undefined \<Rightarrow> False | Str s \<Rightarrow> s \<noteq> [] | PrototypeMember n \<Rightarrow> True)"

text \<open>The operator \<^verbatim>\<open>||\<close>: the left operand when it is truthy, else the right one.\<close>

definition orElse :: "resolved \<Rightarrow> resolved \<Rightarrow> resolved" where
  "orElse a b = (if truthy a then a else b)"

text \<open>\<^verbatim>\<open>Object.values(toolPath)[0]\<close>: the first own value, \<^verbatim>\<open>undefined\<close> for \<^verbatim>\<open>{}\<close>.\<close>

definition firstValue :: "(string \<times> string) list \<Rightarrow> resolved" where
  "firstValue obj = (case obj of [] \<Rightarrow> Undefined | (k, v) # rest \<Rightarrow> Str v)"

text \<open>
  Lines 28 to 36 of \<^verbatim>\<open>executeTool\<close>. The argument is \<open>None\<close> when the menu item has no
  \<^verbatim>\<open>path\<close>: \<^verbatim>\<open>typeof undefined\<close> is not \<^verbatim>\<open>'object'\<close> and \<^verbatim>\<open>resolvedPath\<close> is \<^verbatim>\<open>undefined\<close>.
\<close>

definition resolvePath :: "toolPath option \<Rightarrow> string \<Rightarrow> resolved" where
  "resolvePath toolPath architecture =
     (case toolPath of
        Some (PathObject obj) \<Rightarrow>
          orElse (orElse (pathProperty obj architecture) (pathProperty obj ''X86_64''))
            (firstValue obj)
      | Some (PathString s) \<Rightarrow> Str s
      | None \<Rightarrow> Undefined)"

text \<open>
  The resolution as the specification words it: the entry of the requested tag if
  present, otherwise the \<^verbatim>\<open>X86_64\<close> entry if present, otherwise the first-declared entry.
\<close>

definition resolvePathSpec :: "toolPath \<Rightarrow> string \<Rightarrow> resolved" where
  "resolvePathSpec toolPath architecture =
     (case toolPath of
        PathString s \<Rightarrow> Str s
      | PathObject obj \<Rightarrow>
          (case map_of obj architecture of
             Some v \<Rightarrow> Str v
           | None \<Rightarrow>
               (case map_of obj ''X86_64'' of
                  Some v \<Rightarrow> Str v
                | None \<Rightarrow> firstValue obj)))"

text \<open>The entry of a key when the mapping has one that is not the empty string.\<close>

definition nonEmptyEntry :: "(string \<times> string) list \<Rightarrow> string \<Rightarrow> string option" where
  "nonEmptyEntry obj key =
     (case map_of obj key of None \<Rightarrow> None | Some v \<Rightarrow> if v = [] then None else Some v)"

section \<open>Menu tree and settings (the parsed configuration)\<close>

text \<open>
  A menu item as \<^verbatim>\<open>menu.json\<close> declares it. \<open>itemId\<close> is the integer the JSON number of the id
  holds. \<open>submenu\<close> and \<open>path\<close> are \<open>None\<close> when the item does not have the field. The type
  is the string the source switches on.
\<close>

record MenuItem =
  itemId :: int
  name :: string
  type :: string
  submenu :: "string option"
  path :: "toolPath option"

record MenuDefinition =
  title :: string
  parent :: "string option"
  items :: "MenuItem list option"

text \<open>\<^verbatim>\<open>config.menu\<close>: the own properties of the object, menu id to definition.\<close>

type_synonym MenuTree = "(string \<times> MenuDefinition) list"

text \<open>
  \<^verbatim>\<open>settings.json\<close>: \<open>input_method\<close> is \<open>None\<close> when the option is not set, \<open>arch_picker\<close>
  is the truthiness of the option, and \<open>settings\<close> is \<open>None\<close> when the document has no
  \<^verbatim>\<open>settings\<close> object.
\<close>

record Settings =
  input_method :: "string option"
  arch_picker :: bool

record SettingsConfig =
  settings :: "Settings option"

text \<open>\<^verbatim>\<open>settingsConfig?.settings?.input_method || 'num_input'\<close>\<close>

definition inputMethodOf :: "SettingsConfig option \<Rightarrow> string" where
  "inputMethodOf sc =
     (case sc of
        None \<Rightarrow> ''num_input''
      | Some c \<Rightarrow>
          (case settings c of
             None \<Rightarrow> ''num_input''
           | Some s \<Rightarrow>
               (case input_method s of
                  None \<Rightarrow> ''num_input''
                | Some m \<Rightarrow> if m = [] then ''num_input'' else m)))"

section \<open>Menu engines\<close>

text \<open>\<^verbatim>\<open>menu.items.find(item => item.id === choice) || null\<close>\<close>

definition findItem :: "MenuItem list \<Rightarrow> choice \<Rightarrow> MenuItem option" where
  "findItem its c = find (\<lambda>item. Num (itemId item) = c) its"

text \<open>
  \<open>ArrowMenuEngine.getMenuItem\<close>. A menu id that names a member of \<^verbatim>\<open>Object.prototype\<close>
  reads an object without \<^verbatim>\<open>items\<close>, and the result is \<^verbatim>\<open>null\<close> as for a missing menu.
\<close>

definition ArrowMenuEngine_getMenuItem :: "MenuTree \<Rightarrow> string \<Rightarrow> choice \<Rightarrow> MenuItem option" where
  "ArrowMenuEngine_getMenuItem menu menuId c =
     (case getProperty menu menuId of
        Own m \<Rightarrow> (case items m of None \<Rightarrow> None | Some its \<Rightarrow> findItem its c)
      | Inherited n \<Rightarrow> None
      | Absent \<Rightarrow> None)"

text \<open>
  Modelled from the spec: \<open>NumMenuEngine.getMenuItem\<close> of \<^verbatim>\<open>menuEngine.js\<close>, which is not
  among the sources. The specification has one lookup for both strategies (a selection
  is the item of the current menu with that id, and an id with no matching item is an
  invalid selection), and \<open>MenuController.getMenuItem\<close> documents both engines as
  returning the item's configuration or \<^verbatim>\<open>null\<close>; the model is the lookup of the arrow
  engine.
\<close>

definition NumMenuEngine_getMenuItem :: "MenuTree \<Rightarrow> string \<Rightarrow> choice \<Rightarrow> MenuItem option" where
  "NumMenuEngine_getMenuItem menu menuId c = ArrowMenuEngine_getMenuItem menu menuId c"

section \<open>MenuController (menuController.js)\<close>

text \<open>
  The stack is the JavaScript array \<^verbatim>\<open>menuStack\<close>: its bottom is the head of the list and
  its top the last element. \<open>mc_settingsConfig\<close> is \<open>None\<close> until \<open>setSettingsConfig\<close> runs.
\<close>

record MenuController =
  mc_config :: MenuTree
  menuStack :: "string list"
  mc_settingsConfig :: "SettingsConfig option"

definition newMenuController :: "MenuTree \<Rightarrow> MenuController" where
  "newMenuController cfg = \<lparr>mc_config = cfg, menuStack = [''main''], mc_settingsConfig = None\<rparr>"

text \<open>
  \<^verbatim>\<open>menuStack[menuStack.length - 1]\<close> is \<^verbatim>\<open>undefined\<close> on an empty array; the only use of the
  result is as a property key, where \<^verbatim>\<open>undefined\<close> reads as the string of that name.
\<close>

definition getCurrentMenu :: "MenuController \<Rightarrow> string" where
  "getCurrentMenu mc = (if menuStack mc = [] then ''undefined'' else last (menuStack mc))"

definition setCurrentMenu :: "string \<Rightarrow> MenuController \<Rightarrow> MenuController" where
  "setCurrentMenu menuId mc = mc\<lparr>menuStack := menuStack mc @ [menuId]\<rparr>"

definition goBack :: "MenuController \<Rightarrow> bool \<times> MenuController" where
  "goBack mc =
     (if length (menuStack mc) > 1 then (True, mc\<lparr>menuStack := butlast (menuStack mc)\<rparr>)
      else (False, mc))"

definition goToMainMenu :: "MenuController \<Rightarrow> MenuController" where
  "goToMainMenu mc = mc\<lparr>menuStack := [''main'']\<rparr>"

definition setSettingsConfig :: "SettingsConfig \<Rightarrow> MenuController \<Rightarrow> MenuController" where
  "setSettingsConfig sc mc = mc\<lparr>mc_settingsConfig := Some sc\<rparr>"

definition getMenuItem :: "MenuController \<Rightarrow> string \<Rightarrow> choice \<Rightarrow> MenuItem option" where
  "getMenuItem mc menuId c =
     (if inputMethodOf (mc_settingsConfig mc) = ''arrow_input''
      then ArrowMenuEngine_getMenuItem (mc_config mc) menuId c
      else NumMenuEngine_getMenuItem (mc_config mc) menuId c)"

definition handleNavigationCommand :: "string \<Rightarrow> MenuController \<Rightarrow> bool \<times> MenuController" where
  "handleNavigationCommand command mc =
     (if toLowerCase command = ''b'' then
        (if fst (goBack mc) then (True, snd (goBack mc))
         else (True, goToMainMenu (snd (goBack mc))))
      else if toLowerCase command = ''m'' then (True, goToMainMenu mc)
      else if toLowerCase command = ''p'' then (False, mc)
      else (False, mc))"

section \<open>What the operator sees, and how a call ends\<close>

text \<open>
  The console messages of the source, by what they say: \<open>InvalidSelection\<close> is the
  message of an invalid choice, \<open>EmptyInput\<close> that the input must not be empty,
  \<open>NotANumber\<close> that the input is not a number, \<open>ErrorOccurred\<close> the message of the main
  loop's \<^verbatim>\<open>catch\<close>, and the \<open>Command\<close> messages those of \<open>executeTool\<close>.
\<close>

datatype message =
    InvalidSelection
  | UnknownItemType
  | EmptyInput
  | NotANumber
  | ErrorOccurred string
  | MenuNotFound string
  | MenuItemsMissing
  | RunningCommand string resolved
  | CommandCompleted
  | CommandExitCode "int option"
  | CommandError string

datatype event =
    Print message
  | WaitForEnter
  | WaitForEnterReturnMenu
  | DisplayMenu string
  | Prompt
  | EnterArchitecturePicker
  | Spawn resolved "string option"
  | PackageSelector

text \<open>
  How a call ends: it returns, it throws an error with a message, it waits for input or
  for a child process that has not exited, or the process dies of an exception
  thrown in an event handler. The prompts \<open>WaitForEnter\<close> and \<open>WaitForEnterReturnMenu\<close>
  are recorded as events: the run goes on from them when the operator presses Enter.
\<close>

datatype flow = Normal | Thrown string | Waiting | Crashed

section \<open>UIHandler (uiHandler.js)\<close>

text \<open>
  The terminal during one call of \<open>selectWithArrowKeys\<close>: in raw mode the chunks that
  arrive on standard input, in order; or, when \<^verbatim>\<open>setRawMode\<close> throws, the line answered
  to the fallback question.
\<close>

datatype terminal = RawMode "string list" | LineMode string

datatype selection = Selected choice | StillWaiting | HandlerCrash

definition upArrow :: string where "upArrow = [CHR 0x1B, CHR ''['', CHR ''A'']"
definition downArrow :: string where "downArrow = [CHR 0x1B, CHR ''['', CHR ''B'']"
definition rightArrow :: string where "rightArrow = [CHR 0x1B, CHR ''['', CHR ''C'']"
definition leftArrow :: string where "leftArrow = [CHR 0x1B, CHR ''['', CHR ''D'']"

text \<open>
  The listener \<open>onKeyPress\<close> over the chunks, with \<open>ids\<close> the ids of \<^verbatim>\<open>menuItems\<close>. On Enter
  with no item at the index (an empty list of items) \<^verbatim>\<open>menuItems[selectedIndex].id\<close>
  throws inside the listener. With no item JavaScript's index is NaN after an arrow
  key and the model's is negative; both select no item.
\<close>

fun onKeyPress :: "int list \<Rightarrow> int \<Rightarrow> string list \<Rightarrow> selection" where
  "onKeyPress ids selectedIndex [] = StillWaiting"
| "onKeyPress ids selectedIndex (input # rest) =
     (if input = upArrow then
        onKeyPress ids ((selectedIndex - 1 + int (length ids)) mod int (length ids)) rest
      else if input = downArrow then
        onKeyPress ids ((selectedIndex + 1) mod int (length ids)) rest
      else if input = leftArrow then Selected (Text ''q'')
      else if input = rightArrow then Selected (Text ''m'')
      else if toLowerCase input = ''p'' then Selected (Text ''p'')
      else if input = [CHR 0x0D] \<or> input = [CHR 0x0A] then
        (if 0 \<le> selectedIndex \<and> nat selectedIndex < length ids
         then Selected (Num (ids ! nat selectedIndex)) else HandlerCrash)
      else onKeyPress ids selectedIndex rest)"

definition selectWithArrowKeys :: "int list \<Rightarrow> terminal \<Rightarrow> selection" where
  "selectWithArrowKeys ids term =
     (case term of
        LineMode answer \<Rightarrow>
          (case parseInt answer of
             None \<Rightarrow> if toLowerCase answer = ''t'' then Selected (Text ''t'') else Selected Null
           | Some n \<Rightarrow> Selected n)
      | RawMode chunks \<Rightarrow> onKeyPress ids 0 chunks)"

text \<open>\<open>ArrowMenuEngine.displayInteractiveMenu\<close>\<close>

definition displayInteractiveMenu :: "MenuTree \<Rightarrow> string \<Rightarrow> terminal \<Rightarrow> event list \<times> selection" where
  "displayInteractiveMenu menu menuId term =
     (case getProperty menu menuId of
        Absent \<Rightarrow> ([Print (MenuNotFound menuId)], Selected Null)
      | Inherited n \<Rightarrow> ([Print MenuItemsMissing], Selected Null)
      | Own m \<Rightarrow>
          (case items m of
             None \<Rightarrow> ([Print MenuItemsMissing], Selected Null)
           | Some its \<Rightarrow> ([], selectWithArrowKeys (map itemId its) term)))"

text \<open>\<^verbatim>\<open>arch_picker.json\<close>\<close>

record PickerOption =
  optionId :: int
  display :: string
  optionValue :: string

record PickerConfig =
  pickerTitle :: string
  options :: "PickerOption list"

text \<open>How an asynchronous call of the picker ends.\<close>

datatype attempt = Returns string | Throws string | Pends | Crashes

text \<open>
  \<open>architecturePickerWithArrows\<close>. The first argument is the parsed \<^verbatim>\<open>arch_picker.json\<close>,
  or the message of the error thrown when the file cannot be read or parsed; the second
  the terminal of each display of the picker, the picker calling itself again when a
  display ends without a choice.
\<close>

fun architecturePickerWithArrows :: "string + PickerConfig \<Rightarrow> terminal list \<Rightarrow> attempt" where
  "architecturePickerWithArrows (Inl msg) terms = Throws msg"
| "architecturePickerWithArrows (Inr cfg) [] = Pends"
| "architecturePickerWithArrows (Inr cfg) (term # terms) =
     (case selectWithArrowKeys (map optionId (options cfg)) term of
        StillWaiting \<Rightarrow> Pends
      | HandlerCrash \<Rightarrow> Crashes
      | Selected selectedId \<Rightarrow>
          if \<not> falsy selectedId \<and> selectedId \<noteq> Text ''q'' \<and> selectedId \<noteq> Text ''m''
             \<and> selectedId \<noteq> Text ''t'' then
            (case find (\<lambda>opt. Num (optionId opt) = selectedId) (options cfg) of
               Some selectedOption \<Rightarrow> Returns (optionValue selectedOption)
             | None \<Rightarrow> architecturePickerWithArrows (Inr cfg) terms)
          else if selectedId = Text ''q'' then Throws ''BACK_TO_PARENT_MENU''
          else if selectedId = Text ''m'' then Throws ''BACK_TO_MAIN_MENU''
          else if selectedId = Text ''p'' then Throws ''BACK_TO_PARENT_MENU''
          else architecturePickerWithArrows (Inr cfg) terms)"

text \<open>
  \<open>architecturePicker\<close>. It calls \<open>architecturePickerWithNumbers\<close> for every input method
  but \<^verbatim>\<open>arrow_input\<close>, and the class \<open>UIHandler\<close> of the sources defines no method of that
  name: how that call ends is the parameter \<open>withNumbers\<close> (a result that is falsy is the
  empty string, the caller reading only its truthiness and then its value).
\<close>

definition architecturePicker ::
  "SettingsConfig \<Rightarrow> string + PickerConfig \<Rightarrow> terminal list \<Rightarrow> attempt \<Rightarrow> attempt" where
  "architecturePicker sc cfg terms withNumbers =
     (if inputMethodOf (Some sc) = ''arrow_input'' then architecturePickerWithArrows cfg terms
      else withNumbers)"

section \<open>ToolExecutor (toolExecutor.js)\<close>

text \<open>
  What becomes of the child process: \<^verbatim>\<open>spawn\<close> throws, or the first event the child
  emits is \<^verbatim>\<open>error\<close> or \<^verbatim>\<open>close\<close> (with the exit code, \<^verbatim>\<open>null\<close> after a signal), or the child
  is still running. \<^verbatim>\<open>spawn\<close> itself throws on a file that is not a string or is empty.
\<close>

datatype child = SpawnThrows string | ChildError string | ChildClose "int option" | ChildRunning

definition spawn :: "resolved \<Rightarrow> child \<Rightarrow> child" where
  "spawn resolvedPath ch =
     (case resolvedPath of
        Str s \<Rightarrow> if s = [] then SpawnThrows ''ERR_INVALID_ARG_VALUE'' else ch
      | Undefined \<Rightarrow> SpawnThrows ''ERR_INVALID_ARG_TYPE''
      | PrototypeMember n \<Rightarrow> SpawnThrows ''ERR_INVALID_ARG_TYPE'')"

text \<open>\<^verbatim>\<open>arch || getSystemArchitecture()\<close>, and the \<^verbatim>\<open>cwd\<close> option set for a truthy directory.\<close>

definition truthyString :: "string option \<Rightarrow> string option" where
  "truthyString v = (case v of None \<Rightarrow> None | Some s \<Rightarrow> if s = [] then None else Some s)"

definition architectureOf :: "string option \<Rightarrow> string \<Rightarrow> string" where
  "architectureOf arch osArch =
     (case truthyString arch of Some a \<Rightarrow> a | None \<Rightarrow> getSystemArchitecture osArch)"

definition executeTool ::
  "toolPath option \<Rightarrow> string option \<Rightarrow> string option \<Rightarrow> string \<Rightarrow> child \<Rightarrow> event list \<times> flow" where
  "executeTool toolPath arch toolPackageDir osArch ch =
     (let architecture = architectureOf arch osArch;
          resolvedPath = resolvePath toolPath architecture;
          running = Print (RunningCommand architecture resolvedPath);
          spawned = Spawn resolvedPath (truthyString toolPackageDir)
      in case spawn resolvedPath ch of
           SpawnThrows msg \<Rightarrow>
             ([running, Print (CommandError msg), WaitForEnterReturnMenu], Normal)
         | ChildClose code \<Rightarrow>
             ([running, spawned,
               Print (if code \<noteq> Some 0 then CommandExitCode code else CommandCompleted),
               WaitForEnterReturnMenu], Normal)
         | ChildError msg \<Rightarrow>
             ([running, spawned, Print (CommandError msg), Print (CommandError msg),
               WaitForEnterReturnMenu], Normal)
         | ChildRunning \<Rightarrow> ([running, spawned], Waiting))"

section \<open>ApplicationController (applicationController.js)\<close>

record ApplicationController =
  settingsConfig :: SettingsConfig
  menuController :: MenuController
  toolPackageDir :: "string option"

text \<open>
  What the selection of another tool package does (\<open>showToolPackageSelector\<close>,
  \<open>switchToToolPackage\<close> and \<open>addToolPackage\<close>, which work on the file system): nothing is
  loaded, or the menu tree and the settings of a package are loaded and a new
  \<open>MenuController\<close> is made; either way with the flow the calls end in.
\<close>

datatype switch =
    NotSwitched flow
  | Switched MenuTree SettingsConfig "string option" flow

text \<open>What the world outside the program does during one round of the main loop.\<close>

record Environment =
  line :: string
  menuTerminal :: terminal
  osArch :: string
  pickerConfig :: "string + PickerConfig"
  pickerTerminals :: "terminal list"
  pickerWithNumbers :: attempt
  childProcess :: child
  packageSwitch :: switch

type_synonym outcome = "ApplicationController \<times> event list \<times> flow"

text \<open>The events \<open>evs\<close>, then what the outcome \<open>r\<close> holds.\<close>

definition after :: "event list \<Rightarrow> outcome \<Rightarrow> outcome" where
  "after evs r = (case r of (app, evs', fl) \<Rightarrow> (app, evs @ evs', fl))"

text \<open>\<^verbatim>\<open>this.settingsConfig.settings && this.settingsConfig.settings.arch_picker\<close>\<close>

definition archPickerEnabled :: "SettingsConfig \<Rightarrow> bool" where
  "archPickerEnabled sc = (case settings sc of None \<Rightarrow> False | Some s \<Rightarrow> arch_picker s)"

text \<open>
  A stack entry is only ever used as a property key of \<^verbatim>\<open>config.menu\<close> or inside a
  message, where \<^verbatim>\<open>undefined\<close> reads as the string of that name: an item of type submenu
  without a \<^verbatim>\<open>submenu\<close> field pushes that string.
\<close>

definition propertyKey :: "string option \<Rightarrow> string" where
  "propertyKey k = (case k of None \<Rightarrow> ''undefined'' | Some s \<Rightarrow> s)"

definition runTool :: "Environment \<Rightarrow> MenuItem \<Rightarrow> string \<Rightarrow> ApplicationController \<Rightarrow> outcome" where
  "runTool env menuItem selectedArch app =
     (app, executeTool (path menuItem) (Some selectedArch) (toolPackageDir app) (osArch env)
             (childProcess env))"

definition handleUserChoice :: "Environment \<Rightarrow> choice \<Rightarrow> ApplicationController \<Rightarrow> outcome" where
  "handleUserChoice env c app =
     (let mc = menuController app in
      case getMenuItem mc (getCurrentMenu mc) c of
        None \<Rightarrow> (app, [Print InvalidSelection, WaitForEnter], Normal)
      | Some menuItem \<Rightarrow>
          if type menuItem = ''submenu'' then
            (app\<lparr>menuController := setCurrentMenu (propertyKey (submenu menuItem)) mc\<rparr>, [], Normal)
          else if type menuItem = ''executable'' then
            (if archPickerEnabled (settingsConfig app) then
               (case architecturePicker (settingsConfig app) (pickerConfig env)
                       (pickerTerminals env) (pickerWithNumbers env) of
                  Returns userChoice \<Rightarrow>
                    after [EnterArchitecturePicker]
                      (runTool env menuItem
                         (if userChoice \<noteq> [] then userChoice
                          else getSystemArchitecture (osArch env)) app)
                | Throws msg \<Rightarrow>
                    if msg = ''BACK_TO_PARENT_MENU'' then (app, [EnterArchitecturePicker], Normal)
                    else if msg = ''BACK_TO_MAIN_MENU'' then
                      (app\<lparr>menuController := goToMainMenu mc\<rparr>, [EnterArchitecturePicker], Normal)
                    else (app, [EnterArchitecturePicker], Thrown msg)
                | Pends \<Rightarrow> (app, [EnterArchitecturePicker], Waiting)
                | Crashes \<Rightarrow> (app, [EnterArchitecturePicker], Crashed))
             else runTool env menuItem (getSystemArchitecture (osArch env)) app)
          else if type menuItem = ''back'' then
            (app\<lparr>menuController := snd (goBack mc)\<rparr>, [], Normal)
          else if type menuItem = ''main'' then
            (app\<lparr>menuController := goToMainMenu mc\<rparr>, [], Normal)
          else (app, [Print UnknownItemType, WaitForEnter], Normal))"

text \<open>
  The branch of the letter \<^verbatim>\<open>p\<close>: the tool package selector runs, and after a switch the
  controller is a new one (its stack is the root, and no settings are handed to it).
\<close>

definition switchToolPackage :: "Environment \<Rightarrow> ApplicationController \<Rightarrow> outcome" where
  "switchToolPackage env app =
     (case packageSwitch env of
        NotSwitched fl \<Rightarrow> (app, [PackageSelector], fl)
      | Switched cfg sc dir fl \<Rightarrow>
          (\<lparr>settingsConfig = sc, menuController = newMenuController cfg, toolPackageDir = dir\<rparr>,
           [PackageSelector], fl))"

text \<open>
  Modelled from the spec: \<open>NumMenuEngine.displayMenu\<close> of \<^verbatim>\<open>menuEngine.js\<close>, which is not
  among the sources, renders the menu as a numbered list; the model records the
  rendering as the event \<open>DisplayMenu\<close>.
\<close>

definition displayCurrentMenu :: "MenuController \<Rightarrow> event list" where
  "displayCurrentMenu mc = [DisplayMenu (getCurrentMenu mc)]"

text \<open>The numeric strategy: the body of the \<^verbatim>\<open>try\<close> for \<^verbatim>\<open>num_input\<close>.\<close>

definition numericRound :: "Environment \<Rightarrow> ApplicationController \<Rightarrow> outcome" where
  "numericRound env app =
     (let mc = menuController app;
          shown = displayCurrentMenu mc @ [Prompt];
          answer = trim (line env)
      in if fst (handleNavigationCommand answer mc) then
           (app\<lparr>menuController := snd (handleNavigationCommand answer mc)\<rparr>, shown, Normal)
         else if toLowerCase answer = ''p'' then
           after shown (switchToolPackage env app)
         else if answer = [] then (app, shown @ [Print EmptyInput, WaitForEnter], Normal)
         else
           (case parseInt answer of
              None \<Rightarrow> (app, shown @ [Print NotANumber, WaitForEnter], Normal)
            | Some userChoice \<Rightarrow> after shown (handleUserChoice env userChoice app)))"

text \<open>The interactive strategy: the body of the \<^verbatim>\<open>try\<close> for every other input method.\<close>

definition interactiveRound :: "Environment \<Rightarrow> ApplicationController \<Rightarrow> outcome" where
  "interactiveRound env app =
     (let mc = menuController app in
      case displayInteractiveMenu (mc_config mc) (getCurrentMenu mc) (menuTerminal env) of
        (shown, StillWaiting) \<Rightarrow> (app, shown, Waiting)
      | (shown, HandlerCrash) \<Rightarrow> (app, shown, Crashed)
      | (shown, Selected userChoice) \<Rightarrow>
          if userChoice = Text ''q'' then
            (app\<lparr>menuController := snd (goBack mc)\<rparr>, shown, Normal)
          else if userChoice = Text ''m'' then
            (app\<lparr>menuController := goToMainMenu mc\<rparr>, shown, Normal)
          else if userChoice = Text ''p'' then
            after shown (switchToolPackage env app)
          else if falsy userChoice then
            (app, shown @ [Print EmptyInput, WaitForEnter], Normal)
          else after shown (handleUserChoice env userChoice app))"

text \<open>
  One round of the \<^verbatim>\<open>while (true)\<close> of \<open>showCurrentMenu\<close>: the strategy of the settings,
  and the \<^verbatim>\<open>catch\<close> that reports any error thrown and goes on.
\<close>

definition catchError :: "outcome \<Rightarrow> outcome" where
  "catchError r =
     (case r of
        (app, evs, Thrown msg) \<Rightarrow> (app, evs @ [Print (ErrorOccurred msg), WaitForEnter], Normal)
      | (app, evs, fl) \<Rightarrow> (app, evs, fl))"

definition loopRound :: "Environment \<Rightarrow> ApplicationController \<Rightarrow> outcome" where
  "loopRound env app =
     catchError
       (if inputMethodOf (Some (settingsConfig app)) = ''num_input''
        then numericRound env app else interactiveRound env app)"

text \<open>
  The loop over the rounds the environment provides. It never returns: with no round
  left it waits for input, and it stops only when the process dies.
\<close>

fun showCurrentMenu :: "Environment list \<Rightarrow> ApplicationController \<Rightarrow> outcome" where
  "showCurrentMenu [] app = (app, [], Waiting)"
| "showCurrentMenu (env # envs) app =
     (case loopRound env app of
        (app', evs, Normal) \<Rightarrow> after evs (showCurrentMenu envs app')
      | (app', evs, fl) \<Rightarrow> (app', evs, fl))"

text \<open>\<open>initializeConfig\<close>: the state the main loop starts in.\<close>

definition initializeConfig :: "MenuTree \<Rightarrow> SettingsConfig \<Rightarrow> string option \<Rightarrow> ApplicationController" where
  "initializeConfig cfg sc dir =
     \<lparr>settingsConfig = sc,
      menuController = setSettingsConfig sc (newMenuController cfg),
      toolPackageDir = dir\<rparr>"

section \<open>Notions the properties are stated with\<close>

text \<open>The invariant of the NavigationStack: not empty, and the root menu at the bottom.\<close>

definition stackInvariant :: "string list \<Rightarrow> bool" where
  "stackInvariant stack \<longleftrightarrow> stack \<noteq> [] \<and> hd stack = ''main''"

text \<open>The three navigation operations, as calls of the controller's methods.\<close>

datatype navigation = Push string | Back | Home

fun navigate :: "MenuController \<Rightarrow> navigation \<Rightarrow> MenuController" where
  "navigate mc (Push menuId) = setCurrentMenu menuId mc"
| "navigate mc Back = snd (goBack mc)"
| "navigate mc Home = goToMainMenu mc"

definition navigateAll :: "navigation list \<Rightarrow> MenuController \<Rightarrow> MenuController" where
  "navigateAll ops mc = foldl navigate mc ops"

text \<open>
  The ways the stack may differ after a step: not at all, by one entry pushed, by the top
  entry popped from a stack of more than one entry, or by being reset to the root.
\<close>

definition stackMove :: "string list \<Rightarrow> string list \<Rightarrow> bool" where
  "stackMove old new \<longleftrightarrow>
     new = old \<or> (new \<noteq> [] \<and> butlast new = old) \<or>
     (1 < length old \<and> new = butlast old) \<or> new = [''main'']"

definition stackOf :: "ApplicationController \<Rightarrow> string list" where
  "stackOf app = menuStack (menuController app)"

text \<open>
  The number of times the Tool Executor was invoked: \<open>executeTool\<close> prints the command it
  is about to run first thing on every call, and nothing else prints that message.
\<close>

definition toolRuns :: "event list \<Rightarrow> nat" where
  "toolRuns evs =
     length (filter (\<lambda>e. case e of Print (RunningCommand a p) \<Rightarrow> True | _ \<Rightarrow> False) evs)"

text \<open>
  An integer as a reader of the specification writes one: an optional sign, then one
  or more decimal digits and nothing else.
\<close>

definition decimalDigit :: "char \<Rightarrow> bool" where
  "decimalDigit c \<longleftrightarrow> c \<in> set ''0123456789''"

definition integerNumeral :: "string \<Rightarrow> bool" where
  "integerNumeral s \<longleftrightarrow>
     (let digits = (if take 1 s = ''+'' \<or> take 1 s = ''-'' then drop 1 s else s)
      in digits \<noteq> [] \<and> list_all decimalDigit digits)"

text \<open>What a round of the numeric strategy shows when it rejects the input.\<close>

definition rejection :: "ApplicationController \<Rightarrow> message \<Rightarrow> event list" where
  "rejection app msg =
     [DisplayMenu (getCurrentMenu (menuController app)), Prompt, Print msg, WaitForEnter]"

text \<open>The ids of the items of the current menu (none when the menu is missing).\<close>

definition currentItemIds :: "MenuController \<Rightarrow> int list" where
  "currentItemIds mc =
     (case map_of (mc_config mc) (getCurrentMenu mc) of
        None \<Rightarrow> []
      | Some m \<Rightarrow> (case items m of None \<Rightarrow> [] | Some its \<Rightarrow> map itemId its))"

text \<open>A chunk that moves the cursor or is ignored: the listener goes on listening.\<close>

definition goesOn :: "string \<Rightarrow> bool" where
  "goesOn input \<longleftrightarrow>
     input \<noteq> leftArrow \<and> input \<noteq> rightArrow \<and> toLowerCase input \<noteq> ''p'' \<and>
     input \<noteq> [CHR 0x0D] \<and> input \<noteq> [CHR 0x0A]"

section \<open>A configuration to run the model on\<close>

text \<open>
  The menu tree of the end-to-end scenario of the specification, with two more items in
  the \<^verbatim>\<open>gpu\<close> menu: one whose submenu \<^verbatim>\<open>cpu\<close> is not in the tree, and one for the root.
\<close>

definition exampleTree :: MenuTree where
  "exampleTree =
     [(''main'',
        \<lparr>title = ''Main'', parent = None,
         items = Some [\<lparr>itemId = 1, name = ''GPU'', type = ''submenu'',
                         submenu = Some ''gpu'', path = None\<rparr>]\<rparr>),
      (''gpu'',
        \<lparr>title = ''GPU'', parent = Some ''main'',
         items = Some [\<lparr>itemId = 1, name = ''FurMark'', type = ''executable'',
                         submenu = None, path = Some (PathString ''furmark'')\<rparr>,
                       \<lparr>itemId = 2, name = ''Back'', type = ''back'',
                         submenu = None, path = None\<rparr>,
                       \<lparr>itemId = 4, name = ''CPU'', type = ''submenu'',
                         submenu = Some ''cpu'', path = None\<rparr>,
                       \<lparr>itemId = 5, name = ''Main'', type = ''main'',
                         submenu = None, path = None\<rparr>]\<rparr>)]"

definition exampleSettings :: "string \<Rightarrow> bool \<Rightarrow> SettingsConfig" where
  "exampleSettings method picker =
     \<lparr>settings = Some \<lparr>input_method = Some method, arch_picker = picker\<rparr>\<rparr>"

definition examplePicker :: PickerConfig where
  "examplePicker =
     \<lparr>pickerTitle = ''Architecture'',
      options = [\<lparr>optionId = 1, display = ''x86_64'', optionValue = ''X86_64''\<rparr>,
                 \<lparr>optionId = 2, display = ''arm64'', optionValue = ''ARM64''\<rparr>]\<rparr>"

text \<open>The application in the menu \<^verbatim>\<open>gpu\<close>, for an input method and a picker setting.\<close>

definition exampleApp :: "string \<Rightarrow> bool \<Rightarrow> ApplicationController" where
  "exampleApp method picker =
     (let app = initializeConfig exampleTree (exampleSettings method picker) (Some ''/tools'')
      in app\<lparr>menuController := setCurrentMenu ''gpu'' (menuController app)\<rparr>)"

text \<open>
  An environment: the operator types \<open>typed\<close> at the numeric prompt or sends \<open>chunks\<close> to the
  interactive menu and \<open>pickerChunks\<close> to the picker, and the child does \<open>ch\<close>.
\<close>

definition exampleEnv :: "string \<Rightarrow> string list \<Rightarrow> string list \<Rightarrow> child \<Rightarrow> Environment" where
  "exampleEnv typed chunks pickerChunks ch =
     \<lparr>line = typed, menuTerminal = RawMode chunks, osArch = ''x64'',
      pickerConfig = Inr examplePicker, pickerTerminals = [RawMode pickerChunks],
      pickerWithNumbers = Throws ''architecturePickerWithNumbers is not a function'',
      childProcess = ch, packageSwitch = NotSwitched Normal\<rparr>"

section \<open>The scenarios of the specification\<close>

text \<open>
  The end-to-end scenario: from the root the choices 1 and 1 enter the menu \<^verbatim>\<open>gpu\<close> and run
  the Tool Executor once, on the path \<^verbatim>\<open>furmark\<close>; the stack is then \<^verbatim>\<open>["main", "gpu"]\<close> and
  the loop waits for the next input.
\<close>

lemma end_to_end_scenario:
  "showCurrentMenu
     [exampleEnv ''1'' [] [] (ChildClose (Some 0)), exampleEnv ''1'' [] [] (ChildClose (Some 0))]
     (initializeConfig exampleTree (exampleSettings ''num_input'' False) (Some ''/tools'')) =
   (exampleApp ''num_input'' False,
    [DisplayMenu ''main'', Prompt, DisplayMenu ''gpu'', Prompt,
     Print (RunningCommand ''X86_64'' (Str ''furmark'')), Spawn (Str ''furmark'') (Some ''/tools''),
     Print CommandCompleted, WaitForEnterReturnMenu],
    Waiting)"
  by code_simp

text \<open>
  The cursor of the interactive strategy wraps: with three items, one up-arrow from the
  first item selects the third, and a down-arrow after it the first again.
\<close>

lemma cursor_wraps:
  "onKeyPress [1, 2, 3] 0 [upArrow, [CHR 0x0D]] = Selected (Num 3) \<and>
   onKeyPress [1, 2, 3] 0 [upArrow, downArrow, [CHR 0x0D]] = Selected (Num 1)"
  by code_simp

section \<open>Properties of the Architecture Resolver\<close>

lemmas tag_defs = ArchitectureTag_def X86_64_def X86_def ARM64_def ARM32_def Unknown_def

lemma tag_not_inherited: "t \<in> set ArchitectureTag \<Longrightarrow> t \<notin> set ObjectPrototypeNames"
  by (auto simp: tag_defs ObjectPrototypeNames_def)

lemma X86_64_not_inherited: "''X86_64'' \<notin> set ObjectPrototypeNames"
  by (simp add: ObjectPrototypeNames_def)

text \<open>
  C3: for every string \<^verbatim>\<open>os.arch()\<close> can return, \<open>getSystemArchitecture\<close> returns a value
  (it is a total function with no failing branch), the value is one of the five
  architecture tags, the five tags are pairwise different, and the value is the tag
  \<open>Unknown\<close> exactly when the string is not one of the recognised ones.
\<close>

theorem getSystemArchitecture_tag:
  "getSystemArchitecture arch \<in> set ArchitectureTag \<and>
   distinct ArchitectureTag \<and>
   (arch \<notin> set recognizedArchitectures \<longrightarrow> getSystemArchitecture arch = Unknown) \<and>
   (arch \<in> set recognizedArchitectures \<longrightarrow> getSystemArchitecture arch \<noteq> Unknown)"
  unfolding getSystemArchitecture_def recognizedArchitectures_def
  by (simp add: tag_defs)

theorem getSystemArchitecture_tag_witness:
  "getSystemArchitecture ''mips'' = Unknown \<and> getSystemArchitecture ''x64'' = X86_64 \<and>
   getSystemArchitecture ''x64'' \<noteq> Unknown \<and> getSystemArchitecture ''mips'' \<in> set ArchitectureTag"
  using getSystemArchitecture_tag [of "''mips''"] getSystemArchitecture_tag [of "''x64''"]
  by (simp add: recognizedArchitectures_def getSystemArchitecture_def X86_64_def)

section \<open>Properties of the path resolution\<close>

lemma pathProperty_own:
  "key \<notin> set ObjectPrototypeNames \<Longrightarrow>
   pathProperty obj key = (case map_of obj key of Some v \<Rightarrow> Str v | None \<Rightarrow> Undefined)"
  by (simp add: pathProperty_def getProperty_def split: option.splits)

lemma resolvePath_object:
  "architecture \<notin> set ObjectPrototypeNames \<Longrightarrow>
   resolvePath (Some (PathObject obj)) architecture =
     (case nonEmptyEntry obj architecture of
        Some v \<Rightarrow> Str v
      | None \<Rightarrow> (case nonEmptyEntry obj X86_64 of Some v \<Rightarrow> Str v | None \<Rightarrow> firstValue obj))"
  unfolding X86_64_def
  by (simp add: resolvePath_def orElse_def truthy_def nonEmptyEntry_def pathProperty_own
        X86_64_not_inherited split: option.splits)

text \<open>
  C1, as amended: a path that is a single string is used verbatim. For a path that is a
  mapping and every requested architecture tag, the resolved path is the entry of the
  requested tag if it is present and not the empty string, otherwise the \<open>X86_64\<close> entry
  if it is present and not the empty string, otherwise the first-declared entry of the
  mapping (\<^verbatim>\<open>undefined\<close> for a mapping with no entry). For the path
  \<^verbatim>\<open>{ARM64: "a", X86_64: "b"}\<close> and the tag \<open>X86\<close> the resolved path is \<^verbatim>\<open>"b"\<close>, and for
  \<^verbatim>\<open>{ARM64: "a"}\<close> and \<open>X86_64\<close> it is \<^verbatim>\<open>"a"\<close>.
\<close>

theorem resolvePath_priority:
  "architecture \<in> set ArchitectureTag \<Longrightarrow>
   resolvePath (Some (PathString s)) architecture = Str s \<and>
   resolvePath (Some (PathObject obj)) architecture =
     (case nonEmptyEntry obj architecture of
        Some v \<Rightarrow> Str v
      | None \<Rightarrow> (case nonEmptyEntry obj X86_64 of Some v \<Rightarrow> Str v | None \<Rightarrow> firstValue obj)) \<and>
   resolvePath (Some (PathObject [(ARM64, ''a''), (X86_64, ''b'')])) X86 = Str ''b'' \<and>
   resolvePath (Some (PathObject [(ARM64, ''a'')])) X86_64 = Str ''a''"
proof (intro conjI)
  assume t: "architecture \<in> set ArchitectureTag"
  show "resolvePath (Some (PathString s)) architecture = Str s"
    by (simp add: resolvePath_def)
  show "resolvePath (Some (PathObject obj)) architecture =
     (case nonEmptyEntry obj architecture of
        Some v \<Rightarrow> Str v
      | None \<Rightarrow> (case nonEmptyEntry obj X86_64 of Some v \<Rightarrow> Str v | None \<Rightarrow> firstValue obj))"
    using resolvePath_object [OF tag_not_inherited [OF t]] .
  show "resolvePath (Some (PathObject [(ARM64, ''a''), (X86_64, ''b'')])) X86 = Str ''b''"
    by (simp add: resolvePath_def orElse_def truthy_def pathProperty_def getProperty_def
          ObjectPrototypeNames_def firstValue_def tag_defs)
  show "resolvePath (Some (PathObject [(ARM64, ''a'')])) X86_64 = Str ''a''"
    by (simp add: resolvePath_def orElse_def truthy_def pathProperty_def getProperty_def
          ObjectPrototypeNames_def firstValue_def tag_defs)
qed

theorem resolvePath_priority_witness:
  "X86 \<in> set ArchitectureTag \<and>
   resolvePath (Some (PathObject [(X86, ''c''), (X86_64, ''b'')])) X86 = Str ''c'' \<and>
   resolvePath (Some (PathString ''furmark'')) X86 = Str ''furmark''"
proof -
  have t: "X86 \<in> set ArchitectureTag" by (simp add: ArchitectureTag_def)
  show ?thesis
    using t resolvePath_priority [OF t, of "''furmark''" "[(X86, ''c''), (X86_64, ''b'')]"]
    by (simp add: nonEmptyEntry_def tag_defs)
qed

text \<open>
  C1 as the specification states it fails where the entry of the requested tag is
  present and is the empty string: for \<^verbatim>\<open>{X86: "", X86_64: "b"}\<close> and the tag \<open>X86\<close> the
  entry that is present is \<^verbatim>\<open>""\<close>, and the source resolves \<^verbatim>\<open>"b"\<close>.
\<close>

theorem resolvePath_present_empty_counterexample:
  "resolvePathSpec (PathObject [(X86, ''''), (X86_64, ''b'')]) X86 = Str '''' \<and>
   resolvePath (Some (PathObject [(X86, ''''), (X86_64, ''b'')])) X86 = Str ''b''"
  by (simp add: resolvePathSpec_def resolvePath_def orElse_def truthy_def pathProperty_def
        getProperty_def ObjectPrototypeNames_def firstValue_def tag_defs)

text \<open>
  C10, as amended: an entry that is present but empty is passed over by the first two
  steps of the resolution only. When the entry of the requested key is the empty string,
  the resolved path is the \<open>X86_64\<close> entry if that is present and not empty, and otherwise
  the first-declared entry whatever it holds; when the requested tag has no entry and
  the \<open>X86_64\<close> entry is the empty string, the resolved path is the first-declared entry.
  So with an empty entry for the requested key the resolved path is the empty string
  exactly when the \<open>X86_64\<close> entry is absent or empty and the first-declared entry is
  itself empty.
\<close>

theorem resolvePath_empty_entry:
  "(map_of obj architecture = Some [] \<longrightarrow>
      resolvePath (Some (PathObject obj)) architecture =
        (case nonEmptyEntry obj X86_64 of Some v \<Rightarrow> Str v | None \<Rightarrow> firstValue obj)) \<and>
   (architecture \<in> set ArchitectureTag \<and> map_of obj architecture = None \<and>
    map_of obj X86_64 = Some [] \<longrightarrow>
      resolvePath (Some (PathObject obj)) architecture = firstValue obj) \<and>
   (map_of obj architecture = Some [] \<longrightarrow>
      (resolvePath (Some (PathObject obj)) architecture = Str [] \<longleftrightarrow>
         nonEmptyEntry obj X86_64 = None \<and> firstValue obj = Str []))"
  by (auto simp: resolvePath_def orElse_def truthy_def pathProperty_def getProperty_def
        nonEmptyEntry_def X86_64_def X86_64_not_inherited [simplified] dest: tag_not_inherited
        split: option.splits)

theorem resolvePath_empty_entry_witness:
  "resolvePath (Some (PathObject [(X86, ''''), (X86_64, ''b'')])) X86 = Str ''b'' \<and>
   resolvePath (Some (PathObject [(ARM64, ''a''), (X86, '''')])) X86 = Str ''a'' \<and>
   resolvePath (Some (PathObject [(ARM64, ''a''), (X86_64, '''')])) X86 = Str ''a''"
  using resolvePath_empty_entry [of "[(X86, ''''), (X86_64, ''b'')]" X86]
    resolvePath_empty_entry [of "[(ARM64, ''a''), (X86, '''')]" X86]
    resolvePath_empty_entry [of "[(ARM64, ''a''), (X86_64, '''')]" X86]
  by (simp add: nonEmptyEntry_def firstValue_def tag_defs)

text \<open>
  C10 as stated fails where the empty entry is the first-declared one: for
  \<^verbatim>\<open>{X86: "", ARM64: "a"}\<close> and the tag \<open>X86\<close> the resolved path is the empty string, while
  without the empty entry it would be \<^verbatim>\<open>"a"\<close>.
\<close>

theorem resolvePath_empty_first_counterexample:
  "map_of [(X86, ''''), (ARM64, ''a'')] X86 = Some '''' \<and>
   resolvePath (Some (PathObject [(X86, ''''), (ARM64, ''a'')])) X86 = Str '''' \<and>
   resolvePath (Some (PathObject [(ARM64, ''a'')])) X86 = Str ''a''"
  by (simp add: resolvePath_def orElse_def truthy_def pathProperty_def
        getProperty_def ObjectPrototypeNames_def firstValue_def tag_defs)

section \<open>Properties of the navigation\<close>

lemma goBack_stack:
  "menuStack (snd (goBack mc)) =
     (if 2 \<le> length (menuStack mc) then butlast (menuStack mc) else menuStack mc)"
  by (simp add: goBack_def)

lemma goBack_fst: "fst (goBack mc) \<longleftrightarrow> 2 \<le> length (menuStack mc)"
  by (auto simp add: goBack_def)

lemma goToMainMenu_stack: "menuStack (goToMainMenu mc) = [''main'']"
  by (simp add: goToMainMenu_def)

lemma setCurrentMenu_stack: "menuStack (setCurrentMenu menuId mc) = menuStack mc @ [menuId]"
  by (simp add: setCurrentMenu_def)

lemma stackInvariant_butlast:
  "stackInvariant s \<Longrightarrow> 2 \<le> length s \<Longrightarrow> stackInvariant (butlast s)"
  by (cases s) (auto simp: stackInvariant_def)

lemma stackInvariant_push: "stackInvariant s \<Longrightarrow> stackInvariant (s @ [x])"
  by (cases s) (auto simp: stackInvariant_def)

lemma stackInvariant_root: "stackInvariant [''main'']"
  by (simp add: stackInvariant_def)

lemma stackInvariant_single: "stackInvariant s \<Longrightarrow> length s < 2 \<Longrightarrow> s = [''main'']"
  by (cases s) (auto simp: stackInvariant_def)

lemma stackMove_same: "stackMove s s"
  by (simp add: stackMove_def)

lemma stackMove_push: "stackMove s (s @ [x])"
  by (simp add: stackMove_def)

lemma stackMove_root: "stackMove s [''main'']"
  by (simp add: stackMove_def)

lemma stackMove_goBack: "stackMove (menuStack mc) (menuStack (snd (goBack mc)))"
  by (simp add: goBack_stack stackMove_def)

lemma stackMove_invariant: "stackInvariant s \<Longrightarrow> stackMove s s' \<Longrightarrow> stackInvariant s'"
  unfolding stackMove_def
  by (auto simp: stackInvariant_root stackInvariant_butlast)
     (metis append_butlast_last_id stackInvariant_push)

lemma handleNavigationCommand_move:
  "stackMove (menuStack mc) (menuStack (snd (handleNavigationCommand command mc)))"
  by (simp add: handleNavigationCommand_def goToMainMenu_stack stackMove_root stackMove_same
        stackMove_goBack)

lemma navigate_move: "stackMove (menuStack mc) (menuStack (navigate mc op))"
  by (cases op) (simp_all add: setCurrentMenu_stack stackMove_push stackMove_goBack
        goToMainMenu_stack stackMove_root)

lemma navigateAll_invariant:
  "stackInvariant (menuStack mc) \<Longrightarrow> stackInvariant (menuStack (navigateAll ops mc))"
  unfolding navigateAll_def
  by (induction ops arbitrary: mc) (auto intro: stackMove_invariant navigate_move)

lemma newMenuController_stack: "menuStack (newMenuController cfg) = [''main'']"
  by (simp add: newMenuController_def)

lemma fst_after [simp]: "fst (after evs r) = fst r"
  by (simp add: after_def split: prod.splits)

lemma fst_catchError [simp]: "fst (catchError r) = fst r"
  by (simp add: catchError_def split: prod.splits flow.splits)

lemma fst_runTool [simp]: "fst (runTool env menuItem selectedArch app) = app"
  by (simp add: runTool_def)

lemma handleUserChoice_move:
  "stackMove (stackOf app) (stackOf (fst (handleUserChoice env c app)))"
  by (simp add: handleUserChoice_def Let_def stackOf_def stackMove_same setCurrentMenu_stack
        stackMove_push goToMainMenu_stack stackMove_root stackMove_goBack
        split: option.splits attempt.splits)

lemma switchToolPackage_move:
  "stackMove (stackOf app) (stackOf (fst (switchToolPackage env app)))"
  by (simp add: switchToolPackage_def stackOf_def stackMove_same newMenuController_stack
        stackMove_root split: switch.splits)

lemmas stack_moves =
  stackMove_same stackMove_root stackMove_goBack handleNavigationCommand_move
  switchToolPackage_move [unfolded stackOf_def] handleUserChoice_move [unfolded stackOf_def]

lemma numericRound_move:
  "stackMove (stackOf app) (stackOf (fst (numericRound env app)))"
  unfolding stackOf_def
  by (simp add: numericRound_def Let_def stack_moves split: option.splits)

lemma interactiveRound_move:
  "stackMove (stackOf app) (stackOf (fst (interactiveRound env app)))"
  unfolding stackOf_def
  by (simp add: interactiveRound_def Let_def stack_moves goToMainMenu_stack
        split: prod.splits selection.splits)

lemma loopRound_move: "stackMove (stackOf app) (stackOf (fst (loopRound env app)))"
  by (simp add: loopRound_def numericRound_move interactiveRound_move)

lemma showCurrentMenu_invariant:
  "stackInvariant (stackOf app) \<Longrightarrow> stackInvariant (stackOf (fst (showCurrentMenu envs app)))"
proof (induction envs arbitrary: app)
  case Nil
  then show ?case by simp
next
  case (Cons env envs)
  have step: "stackInvariant (stackOf (fst (loopRound env app)))"
    using Cons.prems loopRound_move stackMove_invariant by blast
  obtain app' evs fl where r: "loopRound env app = (app', evs, fl)"
    by (cases "loopRound env app") auto
  with step have inv: "stackInvariant (stackOf app')" by simp
  show ?case
    using r Cons.IH [OF inv] inv by (cases fl) simp_all
qed

lemma initializeConfig_stack: "stackOf (initializeConfig cfg sc dir) = [''main'']"
  by (simp add: initializeConfig_def stackOf_def setSettingsConfig_def newMenuController_def)

text \<open>
  C4: after every sequence of navigation operations (push, back, home) on a new
  controller the NavigationStack is not empty and its bottom element is \<^verbatim>\<open>"main"\<close>, and
  the same holds after every run of the main loop from the initial state, whatever
  the operator and the environment do. Each operation, and each round of the main
  loop, leaves the stack as it was, pushes one entry, pops the top entry of a stack of
  more than one entry, or resets the stack to the root.
\<close>

theorem stack_never_empty_bottom_main:
  "stackInvariant (menuStack (navigateAll ops (newMenuController cfg))) \<and>
   stackInvariant (stackOf (fst (showCurrentMenu envs (initializeConfig cfg sc dir)))) \<and>
   stackMove (menuStack mc) (menuStack (navigate mc op)) \<and>
   stackMove (stackOf app) (stackOf (fst (loopRound env app)))"
  by (simp add: navigateAll_invariant newMenuController_stack stackInvariant_root
        showCurrentMenu_invariant initializeConfig_stack navigate_move loopRound_move)

theorem stack_never_empty_bottom_main_witness:
  "stackInvariant (menuStack (navigateAll [Push ''gpu'', Back, Back, Push ''cpu'', Home]
     (newMenuController exampleTree))) \<and>
   stackMove [''main'', ''gpu'']
     (stackOf (fst (loopRound (exampleEnv ''4'' [] [] ChildRunning) (exampleApp ''num_input'' False))))"
  using stack_never_empty_bottom_main [where ops = "[Push ''gpu'', Back, Back, Push ''cpu'', Home]"
      and cfg = exampleTree and app = "exampleApp ''num_input'' False"
      and env = "exampleEnv ''4'' [] [] ChildRunning"]
  by (simp add: exampleApp_def initializeConfig_def stackOf_def setCurrentMenu_def
        setSettingsConfig_def newMenuController_def)

lemma handleNavigationCommand_b:
  "toLowerCase command = ''b'' \<Longrightarrow> stackInvariant (menuStack mc) \<Longrightarrow>
   fst (handleNavigationCommand command mc) \<and>
   menuStack (snd (handleNavigationCommand command mc)) =
     (if 2 \<le> length (menuStack mc) then butlast (menuStack mc) else menuStack mc)"
  by (auto simp: handleNavigationCommand_def goBack_fst goBack_stack goToMainMenu_stack
        dest: stackInvariant_single)

lemma handleNavigationCommand_m:
  "toLowerCase command = ''m'' \<Longrightarrow>
   fst (handleNavigationCommand command mc) \<and>
   menuStack (snd (handleNavigationCommand command mc)) = [''main'']"
  by (simp add: handleNavigationCommand_def goToMainMenu_stack)

lemma arrows_differ:
  "rightArrow \<noteq> leftArrow" "upArrow \<noteq> leftArrow" "downArrow \<noteq> leftArrow"
  "upArrow \<noteq> rightArrow" "downArrow \<noteq> rightArrow" "upArrow \<noteq> downArrow"
  "toLowerCase upArrow \<noteq> ''p''" "toLowerCase downArrow \<noteq> ''p''"
  "toLowerCase leftArrow \<noteq> ''p''" "toLowerCase rightArrow \<noteq> ''p''"
  by (simp_all add: rightArrow_def leftArrow_def upArrow_def downArrow_def toLowerCase_def)

lemma onKeyPress_goesOn:
  "\<forall>k \<in> set moves. goesOn k \<Longrightarrow>
   \<exists>j. onKeyPress ids i (moves @ rest) = onKeyPress ids j rest"
proof (induction moves arbitrary: i)
  case Nil
  then show ?case by auto
next
  case (Cons k moves)
  then have k: "goesOn k" and rest: "\<forall>k \<in> set moves. goesOn k" by auto
  from k have "\<exists>i'. onKeyPress ids i ((k # moves) @ rest) = onKeyPress ids i' (moves @ rest)"
    by (simp add: goesOn_def) blast
  then show ?case
    using Cons.IH [OF rest] by metis
qed

lemma onKeyPress_left:
  "\<forall>k \<in> set moves. goesOn k \<Longrightarrow>
   onKeyPress ids i (moves @ leftArrow # rest) = Selected (Text ''q'')"
  using onKeyPress_goesOn [of moves ids i "leftArrow # rest"]
  by (auto simp: arrows_differ [symmetric])

lemma onKeyPress_right:
  "\<forall>k \<in> set moves. goesOn k \<Longrightarrow>
   onKeyPress ids i (moves @ rightArrow # rest) = Selected (Text ''m'')"
  using onKeyPress_goesOn [of moves ids i "rightArrow # rest"]
  by (auto simp: arrows_differ arrows_differ [symmetric])

lemma interactiveRound_q:
  "snd (displayInteractiveMenu (mc_config (menuController app))
          (getCurrentMenu (menuController app)) (menuTerminal env)) = Selected (Text ''q'') \<Longrightarrow>
   stackOf (fst (interactiveRound env app)) =
     (if 2 \<le> length (stackOf app) then butlast (stackOf app) else stackOf app) \<and>
   snd (snd (interactiveRound env app)) = Normal"
  by (cases "displayInteractiveMenu (mc_config (menuController app))
          (getCurrentMenu (menuController app)) (menuTerminal env)")
     (simp add: interactiveRound_def Let_def stackOf_def goBack_stack)

lemma interactiveRound_m:
  "snd (displayInteractiveMenu (mc_config (menuController app))
          (getCurrentMenu (menuController app)) (menuTerminal env)) = Selected (Text ''m'') \<Longrightarrow>
   stackOf (fst (interactiveRound env app)) = [''main''] \<and>
   snd (snd (interactiveRound env app)) = Normal"
  by (cases "displayInteractiveMenu (mc_config (menuController app))
          (getCurrentMenu (menuController app)) (menuTerminal env)")
     (simp add: interactiveRound_def Let_def stackOf_def goToMainMenu_stack)

lemma catchError_Normal: "snd (snd r) = Normal \<Longrightarrow> catchError r = r"
  by (cases r) (simp add: catchError_def)

text \<open>
  C5: \<open>goBack\<close> pops exactly the top entry of a stack of depth at least 2 (the result is
  the stack without its last entry) and leaves a stack of depth 1 as it is. The same
  holds for a round of the main loop in the numeric strategy when the trimmed input is
  \<^verbatim>\<open>b\<close> or \<^verbatim>\<open>B\<close> (on a NavigationStack, whose bottom is the root), and in the interactive
  strategy when the selection is the token \<^verbatim>\<open>'q'\<close>, which is what the left arrow gives
  after any chunks that move the cursor or are ignored.
\<close>

theorem back_pops_one_level:
  "menuStack (snd (goBack mc)) =
     (if 2 \<le> length (menuStack mc) then butlast (menuStack mc) else menuStack mc) \<and>
   (stackInvariant (stackOf app) \<and> inputMethodOf (Some (settingsConfig app)) = ''num_input'' \<and>
    toLowerCase (trim (line env)) = ''b'' \<longrightarrow>
      stackOf (fst (loopRound env app)) =
        (if 2 \<le> length (stackOf app) then butlast (stackOf app) else stackOf app) \<and>
      snd (snd (loopRound env app)) = Normal) \<and>
   (inputMethodOf (Some (settingsConfig app)) \<noteq> ''num_input'' \<and>
    snd (displayInteractiveMenu (mc_config (menuController app))
           (getCurrentMenu (menuController app)) (menuTerminal env)) = Selected (Text ''q'') \<longrightarrow>
      stackOf (fst (loopRound env app)) =
        (if 2 \<le> length (stackOf app) then butlast (stackOf app) else stackOf app) \<and>
      snd (snd (loopRound env app)) = Normal) \<and>
   ((\<forall>k \<in> set moves. goesOn k) \<longrightarrow>
      selectWithArrowKeys ids (RawMode (moves @ leftArrow # rest)) = Selected (Text ''q''))"
proof (intro conjI impI)
  show "menuStack (snd (goBack mc)) =
     (if 2 \<le> length (menuStack mc) then butlast (menuStack mc) else menuStack mc)"
    by (rule goBack_stack)
next
  assume h: "stackInvariant (stackOf app) \<and>
    inputMethodOf (Some (settingsConfig app)) = ''num_input'' \<and>
    toLowerCase (trim (line env)) = ''b''"
  then have nav: "fst (handleNavigationCommand (trim (line env)) (menuController app))"
    "menuStack (snd (handleNavigationCommand (trim (line env)) (menuController app))) =
      (if 2 \<le> length (stackOf app) then butlast (stackOf app) else stackOf app)"
    using handleNavigationCommand_b [of "trim (line env)" "menuController app"]
    by (simp_all add: stackOf_def)
  from h nav show "stackOf (fst (loopRound env app)) =
        (if 2 \<le> length (stackOf app) then butlast (stackOf app) else stackOf app)"
    by (simp add: loopRound_def numericRound_def Let_def stackOf_def)
  from h nav show "snd (snd (loopRound env app)) = Normal"
    by (simp add: loopRound_def numericRound_def Let_def catchError_def)
next
  assume h: "inputMethodOf (Some (settingsConfig app)) \<noteq> ''num_input'' \<and>
    snd (displayInteractiveMenu (mc_config (menuController app))
           (getCurrentMenu (menuController app)) (menuTerminal env)) = Selected (Text ''q'')"
  then have q: "stackOf (fst (interactiveRound env app)) =
     (if 2 \<le> length (stackOf app) then butlast (stackOf app) else stackOf app) \<and>
   snd (snd (interactiveRound env app)) = Normal"
    using interactiveRound_q [of app env] by simp
  from h q show "stackOf (fst (loopRound env app)) =
        (if 2 \<le> length (stackOf app) then butlast (stackOf app) else stackOf app)"
    by (simp add: loopRound_def)
  from h q show "snd (snd (loopRound env app)) = Normal"
    by (simp add: loopRound_def catchError_Normal)
next
  assume "\<forall>k \<in> set moves. goesOn k"
  then show "selectWithArrowKeys ids (RawMode (moves @ leftArrow # rest)) = Selected (Text ''q'')"
    by (simp add: selectWithArrowKeys_def onKeyPress_left)
qed

theorem back_pops_one_level_witness:
  "stackOf (fst (loopRound (exampleEnv '' B '' [] [] ChildRunning) (exampleApp ''num_input'' False)))
     = [''main''] \<and>
   stackOf (fst (loopRound (exampleEnv ''b'' [] [] ChildRunning)
     (initializeConfig exampleTree (exampleSettings ''num_input'' False) None))) = [''main''] \<and>
   stackOf (fst (loopRound (exampleEnv '''' [downArrow, leftArrow] [] ChildRunning)
     (exampleApp ''arrow_input'' False))) = [''main''] \<and>
   selectWithArrowKeys [1, 2] (RawMode [downArrow, ''x'', leftArrow, upArrow]) = Selected (Text ''q'')"
proof -
  let ?gpu = "exampleApp ''num_input'' False"
  let ?root = "initializeConfig exampleTree (exampleSettings ''num_input'' False) None"
  let ?arrow = "exampleApp ''arrow_input'' False"
  let ?typed = "exampleEnv '' B '' [] [] ChildRunning"
  let ?typed' = "exampleEnv ''b'' [] [] ChildRunning"
  let ?keys = "exampleEnv '''' [downArrow, leftArrow] [] ChildRunning"
  have a: "stackInvariant (stackOf ?gpu) \<and>
      inputMethodOf (Some (settingsConfig ?gpu)) = ''num_input'' \<and>
      toLowerCase (trim (line ?typed)) = ''b''"
    by code_simp
  have a': "stackOf ?gpu = [''main'', ''gpu'']" by code_simp
  have b: "stackInvariant (stackOf ?root) \<and>
      inputMethodOf (Some (settingsConfig ?root)) = ''num_input'' \<and>
      toLowerCase (trim (line ?typed')) = ''b''"
    by code_simp
  have b': "stackOf ?root = [''main'']" by code_simp
  have c: "inputMethodOf (Some (settingsConfig ?arrow)) \<noteq> ''num_input'' \<and>
      snd (displayInteractiveMenu (mc_config (menuController ?arrow))
            (getCurrentMenu (menuController ?arrow)) (menuTerminal ?keys)) = Selected (Text ''q'')"
    by code_simp
  have c': "stackOf ?arrow = [''main'', ''gpu'']" by code_simp
  have d: "\<forall>k \<in> set [downArrow, ''x'']. goesOn k" by code_simp
  show ?thesis
    using back_pops_one_level [where app = ?gpu and env = ?typed] a a'
      back_pops_one_level [where app = ?root and env = ?typed'] b b'
      back_pops_one_level [where app = ?arrow and env = ?keys] c c'
      back_pops_one_level [where moves = "[downArrow, ''x'']" and ids = "[1, 2]"
        and rest = "[upArrow]"] d
    by simp
qed

text \<open>
  C6: \<open>goToMainMenu\<close> makes the stack exactly \<^verbatim>\<open>["main"]\<close>, whatever its depth. So does a round
  of the main loop in the numeric strategy when the trimmed input is \<^verbatim>\<open>m\<close> or \<^verbatim>\<open>M\<close>, and in
  the interactive strategy when the selection is the token \<^verbatim>\<open>'m'\<close>, which is what the
  right arrow gives.
\<close>

theorem home_resets_to_root:
  "menuStack (goToMainMenu mc) = [''main''] \<and>
   (inputMethodOf (Some (settingsConfig app)) = ''num_input'' \<and>
    toLowerCase (trim (line env)) = ''m'' \<longrightarrow>
      stackOf (fst (loopRound env app)) = [''main''] \<and>
      snd (snd (loopRound env app)) = Normal) \<and>
   (inputMethodOf (Some (settingsConfig app)) \<noteq> ''num_input'' \<and>
    snd (displayInteractiveMenu (mc_config (menuController app))
           (getCurrentMenu (menuController app)) (menuTerminal env)) = Selected (Text ''m'') \<longrightarrow>
      stackOf (fst (loopRound env app)) = [''main''] \<and>
      snd (snd (loopRound env app)) = Normal) \<and>
   ((\<forall>k \<in> set moves. goesOn k) \<longrightarrow>
      selectWithArrowKeys ids (RawMode (moves @ rightArrow # rest)) = Selected (Text ''m''))"
proof (intro conjI impI)
  show "menuStack (goToMainMenu mc) = [''main'']"
    by (rule goToMainMenu_stack)
next
  assume h: "inputMethodOf (Some (settingsConfig app)) = ''num_input'' \<and>
    toLowerCase (trim (line env)) = ''m''"
  then have nav: "fst (handleNavigationCommand (trim (line env)) (menuController app))"
    "menuStack (snd (handleNavigationCommand (trim (line env)) (menuController app))) = [''main'']"
    using handleNavigationCommand_m [of "trim (line env)" "menuController app"] by simp_all
  from h nav show "stackOf (fst (loopRound env app)) = [''main'']"
    by (simp add: loopRound_def numericRound_def Let_def stackOf_def)
  from h nav show "snd (snd (loopRound env app)) = Normal"
    by (simp add: loopRound_def numericRound_def Let_def catchError_def)
next
  assume h: "inputMethodOf (Some (settingsConfig app)) \<noteq> ''num_input'' \<and>
    snd (displayInteractiveMenu (mc_config (menuController app))
           (getCurrentMenu (menuController app)) (menuTerminal env)) = Selected (Text ''m'')"
  then have m: "stackOf (fst (interactiveRound env app)) = [''main''] \<and>
      snd (snd (interactiveRound env app)) = Normal"
    using interactiveRound_m [of app env] by simp
  from h m show "stackOf (fst (loopRound env app)) = [''main'']"
    by (simp add: loopRound_def)
  from h m show "snd (snd (loopRound env app)) = Normal"
    by (simp add: loopRound_def catchError_Normal)
next
  assume "\<forall>k \<in> set moves. goesOn k"
  then show "selectWithArrowKeys ids (RawMode (moves @ rightArrow # rest)) = Selected (Text ''m'')"
    by (simp add: selectWithArrowKeys_def onKeyPress_right)
qed

theorem home_resets_to_root_witness:
  "stackOf (fst (loopRound (exampleEnv ''M'' [] [] ChildRunning) (exampleApp ''num_input'' False)))
     = [''main''] \<and>
   stackOf (fst (loopRound (exampleEnv '''' [upArrow, rightArrow] [] ChildRunning)
     (exampleApp ''arrow_input'' False))) = [''main''] \<and>
   selectWithArrowKeys [1, 2] (RawMode [upArrow, rightArrow]) = Selected (Text ''m'')"
proof -
  let ?gpu = "exampleApp ''num_input'' False"
  let ?arrow = "exampleApp ''arrow_input'' False"
  let ?typed = "exampleEnv ''M'' [] [] ChildRunning"
  let ?keys = "exampleEnv '''' [upArrow, rightArrow] [] ChildRunning"
  have a: "inputMethodOf (Some (settingsConfig ?gpu)) = ''num_input'' \<and>
      toLowerCase (trim (line ?typed)) = ''m''"
    by code_simp
  have c: "inputMethodOf (Some (settingsConfig ?arrow)) \<noteq> ''num_input'' \<and>
      snd (displayInteractiveMenu (mc_config (menuController ?arrow))
            (getCurrentMenu (menuController ?arrow)) (menuTerminal ?keys)) = Selected (Text ''m'')"
    by code_simp
  have d: "\<forall>k \<in> set [upArrow]. goesOn k" by code_simp
  show ?thesis
    using home_resets_to_root [where app = ?gpu and env = ?typed] a
      home_resets_to_root [where app = ?arrow and env = ?keys] c
      home_resets_to_root [where moves = "[upArrow]" and ids = "[1, 2]" and rest = "[]"] d
    by simp
qed

section \<open>Properties of the numeric strategy\<close>

lemma parseInt_Nil: "parseInt [] = None"
  by (simp add: parseInt_def)

lemma decimalDigit_radix: "decimalDigit c \<Longrightarrow> isRadixDigit 10 c"
  by (auto simp: decimalDigit_def isRadixDigit_def digitValue_def)

lemma decimalDigit_not_x: "decimalDigit c \<Longrightarrow> c \<noteq> CHR ''x'' \<and> c \<noteq> CHR ''X''"
  by (auto simp: decimalDigit_def)

lemma dropWhiteSpace_keeps:
  assumes "\<not> asciiWhiteSpace c"
    and "c \<notin> set [CHR 0xC2, CHR 0xE1, CHR 0xE2, CHR 0xE3, CHR 0xEF]"
  shows "dropWhiteSpace (c # s) = c # s"
proof (cases s)
  case Nil
  with assms show ?thesis by simp
next
  case (Cons a t)
  with assms show ?thesis by (cases t) simp_all
qed

lemma decimalDigit_keeps: "decimalDigit c \<Longrightarrow> dropWhiteSpace (c # s) = c # s"
  by (rule dropWhiteSpace_keeps) (auto simp: decimalDigit_def asciiWhiteSpace_def)

lemma sign_keeps: "c = CHR ''+'' \<or> c = CHR ''-'' \<Longrightarrow> dropWhiteSpace (c # s) = c # s"
  by (rule dropWhiteSpace_keeps) (auto simp: asciiWhiteSpace_def)

lemma digits_read:
  assumes "digits \<noteq> []" "list_all decimalDigit digits"
  shows "takeWhile (isRadixDigit 10) digits \<noteq> []"
    and "take 2 digits \<noteq> ''0x''" and "take 2 digits \<noteq> ''0X''"
    and "take 1 digits \<noteq> ''+''" and "take 1 digits \<noteq> ''-''"
proof -
  obtain c t where d: "digits = c # t" using assms(1) by (cases digits) auto
  with assms(2) have c: "decimalDigit c" by simp
  then show "takeWhile (isRadixDigit 10) digits \<noteq> []"
    using d by (simp add: decimalDigit_radix)
  from c show "take 1 digits \<noteq> ''+''" "take 1 digits \<noteq> ''-''"
    using d by (auto simp: decimalDigit_def)
  show "take 2 digits \<noteq> ''0x''" "take 2 digits \<noteq> ''0X''"
    using d assms(2) decimalDigit_not_x by (cases t; auto)+
qed

lemma parseInt_digits:
  assumes "digits \<noteq> []" "list_all decimalDigit digits"
  shows "parseInt digits \<noteq> None"
proof -
  obtain c t where d: "digits = c # t" using assms(1) by (cases digits) auto
  with assms(2) have "dropWhiteSpace digits = digits"
    by (simp add: decimalDigit_keeps)
  then show ?thesis
    using digits_read [OF assms] assms(1) by (simp add: parseInt_def Let_def)
qed

lemma parseInt_signed:
  assumes "c = CHR ''+'' \<or> c = CHR ''-''" "digits \<noteq> []" "list_all decimalDigit digits"
  shows "parseInt (c # digits) \<noteq> None"
proof -
  have "dropWhiteSpace (c # digits) = c # digits"
    using assms(1) by (rule sign_keeps)
  then show ?thesis
    using digits_read(1,2,3) [OF assms(2,3)] assms(1,2) by (auto simp: parseInt_def Let_def)
qed

lemma integerNumeral_parsed: "integerNumeral s \<Longrightarrow> parseInt s \<noteq> None"
proof (cases s)
  case Nil
  then show "integerNumeral s \<Longrightarrow> parseInt s \<noteq> None"
    by (simp add: integerNumeral_def)
next
  case (Cons c digits)
  show "integerNumeral s \<Longrightarrow> parseInt s \<noteq> None"
  proof (cases "c = CHR ''+'' \<or> c = CHR ''-''")
    case True
    assume "integerNumeral s"
    with Cons True have "digits \<noteq> []" "list_all decimalDigit digits"
      by (auto simp: integerNumeral_def)
    with True Cons show ?thesis using parseInt_signed by blast
  next
    case False
    assume "integerNumeral s"
    with Cons False have "s \<noteq> []" "list_all decimalDigit s"
      by (auto simp: integerNumeral_def)
    then show ?thesis by (rule parseInt_digits)
  qed
qed

lemma findItem_None: "n \<notin> set (map itemId its) \<Longrightarrow> findItem its (Num n) = None"
  by (induction its) (auto simp: findItem_def)

lemma findItem_infinite: "findItem its Infinity = None \<and> findItem its MinusInfinity = None"
  by (induction its) (auto simp: findItem_def)

lemma getMenuItem_None:
  "n \<notin> set (currentItemIds mc) \<Longrightarrow> getMenuItem mc (getCurrentMenu mc) (Num n) = None"
  by (auto simp: getMenuItem_def NumMenuEngine_getMenuItem_def ArrowMenuEngine_getMenuItem_def
        getProperty_def currentItemIds_def findItem_None split: option.splits)

lemma getMenuItem_infinite:
  "getMenuItem mc menuId Infinity = None \<and> getMenuItem mc menuId MinusInfinity = None"
  by (auto simp: getMenuItem_def NumMenuEngine_getMenuItem_def ArrowMenuEngine_getMenuItem_def
        findItem_infinite split: property.splits option.splits)

lemma not_navigation:
  "toLowerCase answer \<notin> set [''b'', ''m'', ''p''] \<Longrightarrow>
   \<not> fst (handleNavigationCommand answer mc) \<and> toLowerCase answer \<noteq> ''p''"
  by (simp add: handleNavigationCommand_def)

lemma showCurrentMenu_Normal:
  "loopRound env app = (app', evs, Normal) \<Longrightarrow>
   showCurrentMenu (env # envs) app = after evs (showCurrentMenu envs app')"
  by simp

lemma numericRound_dispatch:
  assumes "inputMethodOf (Some (settingsConfig app)) = ''num_input''"
    and "toLowerCase (trim (line env)) \<notin> set [''b'', ''m'', ''p'']"
    and "parseInt (trim (line env)) = Some c"
  shows "loopRound env app =
    catchError (after [DisplayMenu (getCurrentMenu (menuController app)), Prompt]
      (handleUserChoice env c app))"
proof -
  from assms(3) have ne: "trim (line env) \<noteq> []"
    using parseInt_Nil by auto
  with assms not_navigation [OF assms(2), of "menuController app"] show ?thesis
    by (simp add: loopRound_def numericRound_def Let_def displayCurrentMenu_def)
qed

lemma rejected_invalid:
  assumes "handleUserChoice env c app = (app, [Print InvalidSelection, WaitForEnter], Normal)"
  shows "catchError (after [DisplayMenu (getCurrentMenu (menuController app)), Prompt]
      (handleUserChoice env c app)) = (app, rejection app InvalidSelection, Normal)"
  using assms by (simp add: after_def catchError_def rejection_def)

text \<open>
  C7, as amended: in the numeric strategy, when the trimmed input is none of the command
  tokens \<^verbatim>\<open>b\<close>, \<^verbatim>\<open>m\<close> and \<^verbatim>\<open>p\<close> (in either case): an empty input is reported as \<open>EmptyInput\<close>; a
  non-empty input from which \<^verbatim>\<open>parseInt\<close> reads no number (no digit follows the optional
  sign and \<^verbatim>\<open>0x\<close> prefix) is not an integer and is reported as \<open>NotANumber\<close>; every other
  input is read as the number its leading digits spell, whatever follows them, and is
  dispatched as that choice; and when that number is the id of no item of the current
  menu, or is infinite, the input is reported as \<open>InvalidSelection\<close>. In the three error
  cases the round shows the menu and the prompt, prints the message and waits for
  Enter, the application state (the NavigationStack with it) is unchanged, and the
  loop goes on to its next round in that state.
\<close>

theorem numeric_input_errors:
  "inputMethodOf (Some (settingsConfig app)) = ''num_input'' \<and>
   toLowerCase (trim (line env)) \<notin> set [''b'', ''m'', ''p''] \<longrightarrow>
     (trim (line env) = [] \<longrightarrow>
        loopRound env app = (app, rejection app EmptyInput, Normal) \<and>
        showCurrentMenu (env # envs) app =
          after (rejection app EmptyInput) (showCurrentMenu envs app)) \<and>
     (trim (line env) \<noteq> [] \<and> parseInt (trim (line env)) = None \<longrightarrow>
        \<not> integerNumeral (trim (line env)) \<and>
        loopRound env app = (app, rejection app NotANumber, Normal) \<and>
        showCurrentMenu (env # envs) app =
          after (rejection app NotANumber) (showCurrentMenu envs app)) \<and>
     (\<forall>c. parseInt (trim (line env)) = Some c \<longrightarrow>
        loopRound env app =
          catchError (after [DisplayMenu (getCurrentMenu (menuController app)), Prompt]
            (handleUserChoice env c app))) \<and>
     (\<forall>n. parseInt (trim (line env)) = Some (Num n) \<and>
          n \<notin> set (currentItemIds (menuController app)) \<longrightarrow>
        loopRound env app = (app, rejection app InvalidSelection, Normal) \<and>
        showCurrentMenu (env # envs) app =
          after (rejection app InvalidSelection) (showCurrentMenu envs app)) \<and>
     (parseInt (trim (line env)) = Some Infinity \<or>
      parseInt (trim (line env)) = Some MinusInfinity \<longrightarrow>
        loopRound env app = (app, rejection app InvalidSelection, Normal) \<and>
        showCurrentMenu (env # envs) app =
          after (rejection app InvalidSelection) (showCurrentMenu envs app))"
proof (intro impI)
  assume h: "inputMethodOf (Some (settingsConfig app)) = ''num_input'' \<and>
    toLowerCase (trim (line env)) \<notin> set [''b'', ''m'', ''p'']"
  then have num: "inputMethodOf (Some (settingsConfig app)) = ''num_input''"
    and cmd: "toLowerCase (trim (line env)) \<notin> set [''b'', ''m'', ''p'']"
    by simp_all
  have nav: "\<not> fst (handleNavigationCommand (trim (line env)) (menuController app))"
    and p: "toLowerCase (trim (line env)) \<noteq> ''p''"
    using not_navigation [OF cmd, of "menuController app"] by simp_all
  have empty: "loopRound env app = (app, rejection app EmptyInput, Normal)"
    if "trim (line env) = []"
    using that num nav p
    by (simp add: loopRound_def numericRound_def Let_def catchError_def rejection_def
          displayCurrentMenu_def)
  have nan: "loopRound env app = (app, rejection app NotANumber, Normal)"
    if "trim (line env) \<noteq> []" "parseInt (trim (line env)) = None"
    using that num nav p
    by (simp add: loopRound_def numericRound_def Let_def catchError_def rejection_def
          displayCurrentMenu_def)
  have numeral: "\<not> integerNumeral (trim (line env))"
    if "parseInt (trim (line env)) = None"
    using that integerNumeral_parsed by blast
  have dispatch: "loopRound env app =
      catchError (after [DisplayMenu (getCurrentMenu (menuController app)), Prompt]
        (handleUserChoice env c app))"
    if "parseInt (trim (line env)) = Some c" for c
    using numericRound_dispatch [OF num cmd that] .
  have invalid: "loopRound env app = (app, rejection app InvalidSelection, Normal)"
    if "parseInt (trim (line env)) = Some (Num n)"
      "n \<notin> set (currentItemIds (menuController app))" for n
  proof -
    have "handleUserChoice env (Num n) app = (app, [Print InvalidSelection, WaitForEnter], Normal)"
      using getMenuItem_None [OF that(2)] by (simp add: handleUserChoice_def)
    then show ?thesis
      using dispatch [OF that(1)] rejected_invalid by simp
  qed
  have infinite: "loopRound env app = (app, rejection app InvalidSelection, Normal)"
    if "parseInt (trim (line env)) = Some Infinity \<or>
      parseInt (trim (line env)) = Some MinusInfinity"
  proof -
    have "handleUserChoice env Infinity app = (app, [Print InvalidSelection, WaitForEnter], Normal)"
      "handleUserChoice env MinusInfinity app =
        (app, [Print InvalidSelection, WaitForEnter], Normal)"
      using getMenuItem_infinite [of "menuController app" "getCurrentMenu (menuController app)"]
      by (simp_all add: handleUserChoice_def)
    then show ?thesis
      using that dispatch rejected_invalid by metis
  qed
  show "(trim (line env) = [] \<longrightarrow>
        loopRound env app = (app, rejection app EmptyInput, Normal) \<and>
        showCurrentMenu (env # envs) app =
          after (rejection app EmptyInput) (showCurrentMenu envs app)) \<and>
     (trim (line env) \<noteq> [] \<and> parseInt (trim (line env)) = None \<longrightarrow>
        \<not> integerNumeral (trim (line env)) \<and>
        loopRound env app = (app, rejection app NotANumber, Normal) \<and>
        showCurrentMenu (env # envs) app =
          after (rejection app NotANumber) (showCurrentMenu envs app)) \<and>
     (\<forall>c. parseInt (trim (line env)) = Some c \<longrightarrow>
        loopRound env app =
          catchError (after [DisplayMenu (getCurrentMenu (menuController app)), Prompt]
            (handleUserChoice env c app))) \<and>
     (\<forall>n. parseInt (trim (line env)) = Some (Num n) \<and>
          n \<notin> set (currentItemIds (menuController app)) \<longrightarrow>
        loopRound env app = (app, rejection app InvalidSelection, Normal) \<and>
        showCurrentMenu (env # envs) app =
          after (rejection app InvalidSelection) (showCurrentMenu envs app)) \<and>
     (parseInt (trim (line env)) = Some Infinity \<or>
      parseInt (trim (line env)) = Some MinusInfinity \<longrightarrow>
        loopRound env app = (app, rejection app InvalidSelection, Normal) \<and>
        showCurrentMenu (env # envs) app =
          after (rejection app InvalidSelection) (showCurrentMenu envs app))"
    using empty nan numeral dispatch invalid infinite showCurrentMenu_Normal by blast
qed

theorem numeric_input_errors_witness:
  "loopRound (exampleEnv '''' [] [] ChildRunning) (exampleApp ''num_input'' False) =
     (exampleApp ''num_input'' False,
      [DisplayMenu ''gpu'', Prompt, Print EmptyInput, WaitForEnter], Normal) \<and>
   loopRound (exampleEnv ''abc'' [] [] ChildRunning) (exampleApp ''num_input'' False) =
     (exampleApp ''num_input'' False,
      [DisplayMenu ''gpu'', Prompt, Print NotANumber, WaitForEnter], Normal) \<and>
   loopRound (exampleEnv ''3'' [] [] ChildRunning) (exampleApp ''num_input'' False) =
     (exampleApp ''num_input'' False,
      [DisplayMenu ''gpu'', Prompt, Print InvalidSelection, WaitForEnter], Normal) \<and>
   loopRound (exampleEnv ''9007199254740993'' [] [] ChildRunning) (exampleApp ''num_input'' False) =
     (exampleApp ''num_input'' False,
      [DisplayMenu ''gpu'', Prompt, Print InvalidSelection, WaitForEnter], Normal) \<and>
   loopRound (exampleEnv ''2abc'' [] [] ChildRunning) (exampleApp ''num_input'' False) =
     catchError (after [DisplayMenu ''gpu'', Prompt]
       (handleUserChoice (exampleEnv ''2abc'' [] [] ChildRunning) (Num 2)
          (exampleApp ''num_input'' False)))"
proof -
  let ?app = "exampleApp ''num_input'' False"
  let ?empty = "exampleEnv '''' [] [] ChildRunning"
  let ?abc = "exampleEnv ''abc'' [] [] ChildRunning"
  let ?three = "exampleEnv ''3'' [] [] ChildRunning"
  let ?big = "exampleEnv ''9007199254740993'' [] [] ChildRunning"
  let ?junk = "exampleEnv ''2abc'' [] [] ChildRunning"
  have num: "inputMethodOf (Some (settingsConfig ?app)) = ''num_input''" by code_simp
  have a: "toLowerCase (trim (line ?empty)) \<notin> set [''b'', ''m'', ''p''] \<and> trim (line ?empty) = []"
    by code_simp
  have b: "toLowerCase (trim (line ?abc)) \<notin> set [''b'', ''m'', ''p''] \<and>
      trim (line ?abc) \<noteq> [] \<and> parseInt (trim (line ?abc)) = None"
    by code_simp
  have c: "toLowerCase (trim (line ?three)) \<notin> set [''b'', ''m'', ''p''] \<and>
      parseInt (trim (line ?three)) = Some (Num 3) \<and>
      3 \<notin> set (currentItemIds (menuController ?app))"
    by code_simp
  have d: "toLowerCase (trim (line ?big)) \<notin> set [''b'', ''m'', ''p''] \<and>
      parseInt (trim (line ?big)) = Some (Num 9007199254740992) \<and>
      9007199254740992 \<notin> set (currentItemIds (menuController ?app))"
    by code_simp
  have j: "toLowerCase (trim (line ?junk)) \<notin> set [''b'', ''m'', ''p''] \<and>
      parseInt (trim (line ?junk)) = Some (Num 2)"
    by code_simp
  have r: "rejection ?app msg = [DisplayMenu ''gpu'', Prompt, Print msg, WaitForEnter]" for msg
    by (simp add: rejection_def exampleApp_def initializeConfig_def getCurrentMenu_def
          setCurrentMenu_def setSettingsConfig_def newMenuController_def)
  have cur: "getCurrentMenu (menuController ?app) = ''gpu''"
    by code_simp
  have e: "loopRound ?empty ?app = (?app, rejection ?app EmptyInput, Normal)"
    using numeric_input_errors [where app = ?app and env = ?empty] num a by blast
  have n: "loopRound ?abc ?app = (?app, rejection ?app NotANumber, Normal)"
    using numeric_input_errors [where app = ?app and env = ?abc] num b by blast
  have i: "loopRound ?three ?app = (?app, rejection ?app InvalidSelection, Normal)"
    using numeric_input_errors [where app = ?app and env = ?three] num c by blast
  have g: "loopRound ?big ?app = (?app, rejection ?app InvalidSelection, Normal)"
    using numeric_input_errors [where app = ?app and env = ?big] num d by blast
  have k: "loopRound ?junk ?app =
      catchError (after [DisplayMenu (getCurrentMenu (menuController ?app)), Prompt]
        (handleUserChoice ?junk (Num 2) ?app))"
    using numeric_input_errors [where app = ?app and env = ?junk] num j by blast
  from e n i g k show ?thesis
    unfolding r cur by blast
qed

text \<open>
  C7 as stated fails for an input that is not an integer but begins with digits: in the
  menu \<^verbatim>\<open>gpu\<close> the input \<^verbatim>\<open>2abc\<close> is dispatched as the choice 2, the item of type back, so
  nothing is reported and the stack is popped; and the input \<^verbatim>\<open>1.9\<close> runs the tool of
  item 1.
\<close>

theorem leading_digits_dispatched_counterexample:
  "\<not> integerNumeral (trim (line (exampleEnv ''2abc'' [] [] ChildRunning))) \<and>
   toLowerCase (trim (line (exampleEnv ''2abc'' [] [] ChildRunning))) \<notin> set [''b'', ''m'', ''p''] \<and>
   stackOf (exampleApp ''num_input'' False) = [''main'', ''gpu''] \<and>
   loopRound (exampleEnv ''2abc'' [] [] ChildRunning) (exampleApp ''num_input'' False) =
     ((exampleApp ''num_input'' False)\<lparr>menuController :=
        snd (goBack (menuController (exampleApp ''num_input'' False)))\<rparr>,
      [DisplayMenu ''gpu'', Prompt], Normal) \<and>
   stackOf (fst (loopRound (exampleEnv ''2abc'' [] [] ChildRunning)
     (exampleApp ''num_input'' False))) = [''main''] \<and>
   \<not> integerNumeral (trim (line (exampleEnv ''1.9'' [] [] (ChildClose (Some 0))))) \<and>
   toolRuns (fst (snd (loopRound (exampleEnv ''1.9'' [] [] (ChildClose (Some 0)))
     (exampleApp ''num_input'' False)))) = 1"
  by code_simp

section \<open>Properties of the dispatch of a selection\<close>

lemma toolRuns_executeTool: "toolRuns (fst (executeTool tp arch dir os ch)) = 1"
  by (simp add: executeTool_def Let_def toolRuns_def split: child.splits)

lemma toolRuns_picker [simp]: "toolRuns (EnterArchitecturePicker # evs) = toolRuns evs"
  by (simp add: toolRuns_def)

lemma toolRuns_Nil [simp]: "toolRuns [] = 0"
  by (simp add: toolRuns_def)

lemma events_after: "fst (snd (after evs r)) = evs @ fst (snd r)"
  by (cases r) (simp add: after_def)

lemma toolRuns_append [simp]: "toolRuns (xs @ ys) = toolRuns xs + toolRuns ys"
  by (simp add: toolRuns_def)

lemma picker_left:
  "\<forall>k \<in> set moves. goesOn k \<Longrightarrow>
   architecturePickerWithArrows (Inr cfg) (RawMode (moves @ leftArrow # rest) # terms) =
     Throws ''BACK_TO_PARENT_MENU''"
  by (simp add: selectWithArrowKeys_def onKeyPress_left falsy_def)

lemma picker_right:
  "\<forall>k \<in> set moves. goesOn k \<Longrightarrow>
   architecturePickerWithArrows (Inr cfg) (RawMode (moves @ rightArrow # rest) # terms) =
     Throws ''BACK_TO_MAIN_MENU''"
  by (simp add: selectWithArrowKeys_def onKeyPress_right falsy_def)

text \<open>
  C8: when an executable item is dispatched with the architecture picker enabled, and
  the picker ends with the control token for back (the error \<^verbatim>\<open>BACK_TO_PARENT_MENU\<close>), the
  application state is unchanged (the NavigationStack with it) and the Tool Executor
  is not invoked; when it ends with the token for home (\<^verbatim>\<open>BACK_TO_MAIN_MENU\<close>), only the
  NavigationStack changes, to exactly the root, and the Tool Executor is not invoked;
  when it returns an architecture the Tool Executor is invoked once. In the
  interactive picker the left arrow gives the token for back and the right arrow the
  token for home, after any chunks that move the cursor or are ignored.
\<close>

theorem picker_back_and_home:
  "(getMenuItem (menuController app) (getCurrentMenu (menuController app)) c = Some menuItem \<and>
    type menuItem = ''executable'' \<and> archPickerEnabled (settingsConfig app) \<longrightarrow>
      (architecturePicker (settingsConfig app) (pickerConfig env) (pickerTerminals env)
         (pickerWithNumbers env) = Throws ''BACK_TO_PARENT_MENU'' \<longrightarrow>
         handleUserChoice env c app = (app, [EnterArchitecturePicker], Normal) \<and>
         toolRuns (fst (snd (handleUserChoice env c app))) = 0) \<and>
      (architecturePicker (settingsConfig app) (pickerConfig env) (pickerTerminals env)
         (pickerWithNumbers env) = Throws ''BACK_TO_MAIN_MENU'' \<longrightarrow>
         handleUserChoice env c app =
           (app\<lparr>menuController := goToMainMenu (menuController app)\<rparr>,
            [EnterArchitecturePicker], Normal) \<and>
         stackOf (fst (handleUserChoice env c app)) = [''main''] \<and>
         toolRuns (fst (snd (handleUserChoice env c app))) = 0) \<and>
      (\<forall>a. architecturePicker (settingsConfig app) (pickerConfig env) (pickerTerminals env)
         (pickerWithNumbers env) = Returns a \<longrightarrow>
         toolRuns (fst (snd (handleUserChoice env c app))) = 1)) \<and>
   (inputMethodOf (Some sc) = ''arrow_input'' \<and> (\<forall>k \<in> set moves. goesOn k) \<longrightarrow>
      architecturePicker sc (Inr cfg) (RawMode (moves @ leftArrow # rest) # terms) withNumbers =
        Throws ''BACK_TO_PARENT_MENU'' \<and>
      architecturePicker sc (Inr cfg) (RawMode (moves @ rightArrow # rest) # terms) withNumbers =
        Throws ''BACK_TO_MAIN_MENU'')"
proof (intro conjI impI allI)
  assume h: "getMenuItem (menuController app) (getCurrentMenu (menuController app)) c = Some menuItem \<and>
    type menuItem = ''executable'' \<and> archPickerEnabled (settingsConfig app)"
  {
    assume "architecturePicker (settingsConfig app) (pickerConfig env) (pickerTerminals env)
         (pickerWithNumbers env) = Throws ''BACK_TO_PARENT_MENU''"
    with h show bk: "handleUserChoice env c app = (app, [EnterArchitecturePicker], Normal)"
      by (simp add: handleUserChoice_def)
    then show "toolRuns (fst (snd (handleUserChoice env c app))) = 0"
      by simp
  }
  {
    assume "architecturePicker (settingsConfig app) (pickerConfig env) (pickerTerminals env)
         (pickerWithNumbers env) = Throws ''BACK_TO_MAIN_MENU''"
    with h show hm: "handleUserChoice env c app =
           (app\<lparr>menuController := goToMainMenu (menuController app)\<rparr>,
            [EnterArchitecturePicker], Normal)"
      by (simp add: handleUserChoice_def)
    then show "stackOf (fst (handleUserChoice env c app)) = [''main'']"
      by (simp add: stackOf_def goToMainMenu_stack)
    from hm show "toolRuns (fst (snd (handleUserChoice env c app))) = 0"
      by simp
  }
  {
    fix a
    assume "architecturePicker (settingsConfig app) (pickerConfig env) (pickerTerminals env)
         (pickerWithNumbers env) = Returns a"
    with h have "handleUserChoice env c app =
        after [EnterArchitecturePicker]
          (runTool env menuItem (if a \<noteq> [] then a else getSystemArchitecture (osArch env)) app)"
      by (simp add: handleUserChoice_def)
    then show "toolRuns (fst (snd (handleUserChoice env c app))) = 1"
      by (simp add: events_after runTool_def toolRuns_executeTool)
  }
next
  assume "inputMethodOf (Some sc) = ''arrow_input'' \<and> (\<forall>k \<in> set moves. goesOn k)"
  then show "architecturePicker sc (Inr cfg) (RawMode (moves @ leftArrow # rest) # terms) withNumbers =
        Throws ''BACK_TO_PARENT_MENU''"
    by (simp add: architecturePicker_def picker_left del: architecturePickerWithArrows.simps)
next
  assume "inputMethodOf (Some sc) = ''arrow_input'' \<and> (\<forall>k \<in> set moves. goesOn k)"
  then show "architecturePicker sc (Inr cfg) (RawMode (moves @ rightArrow # rest) # terms) withNumbers =
        Throws ''BACK_TO_MAIN_MENU''"
    by (simp add: architecturePicker_def picker_right del: architecturePickerWithArrows.simps)
qed

theorem picker_back_and_home_witness:
  "handleUserChoice (exampleEnv '''' [] [downArrow, leftArrow] (ChildClose (Some 0))) (Num 1)
     (exampleApp ''arrow_input'' True) =
     (exampleApp ''arrow_input'' True, [EnterArchitecturePicker], Normal) \<and>
   stackOf (fst (handleUserChoice (exampleEnv '''' [] [rightArrow] (ChildClose (Some 0))) (Num 1)
     (exampleApp ''arrow_input'' True))) = [''main''] \<and>
   toolRuns (fst (snd (handleUserChoice (exampleEnv '''' [] [rightArrow] (ChildClose (Some 0)))
     (Num 1) (exampleApp ''arrow_input'' True)))) = 0 \<and>
   toolRuns (fst (snd (handleUserChoice (exampleEnv '''' [] [downArrow, [CHR 0x0D]]
     (ChildClose (Some 0))) (Num 1) (exampleApp ''arrow_input'' True)))) = 1"
proof -
  let ?app = "exampleApp ''arrow_input'' True"
  let ?item = "\<lparr>itemId = 1, name = ''FurMark'', type = ''executable'',
                 submenu = None, path = Some (PathString ''furmark'')\<rparr>"
  let ?left = "exampleEnv '''' [] [downArrow, leftArrow] (ChildClose (Some 0))"
  let ?right = "exampleEnv '''' [] [rightArrow] (ChildClose (Some 0))"
  let ?enter = "exampleEnv '''' [] [downArrow, [CHR 0x0D]] (ChildClose (Some 0))"
  have item: "getMenuItem (menuController ?app) (getCurrentMenu (menuController ?app)) (Num 1)
      = Some ?item \<and> type ?item = ''executable'' \<and> archPickerEnabled (settingsConfig ?app)"
    by code_simp
  have l: "architecturePicker (settingsConfig ?app) (pickerConfig ?left) (pickerTerminals ?left)
      (pickerWithNumbers ?left) = Throws ''BACK_TO_PARENT_MENU''"
    by code_simp
  have r: "architecturePicker (settingsConfig ?app) (pickerConfig ?right) (pickerTerminals ?right)
      (pickerWithNumbers ?right) = Throws ''BACK_TO_MAIN_MENU''"
    by code_simp
  have e: "architecturePicker (settingsConfig ?app) (pickerConfig ?enter) (pickerTerminals ?enter)
      (pickerWithNumbers ?enter) = Returns ''ARM64''"
    by code_simp
  have bk: "handleUserChoice ?left (Num 1) ?app = (?app, [EnterArchitecturePicker], Normal)"
    using picker_back_and_home [where app = ?app and c = "Num 1" and menuItem = ?item
        and env = ?left, THEN conjunct1] item l
    by blast
  have hm: "stackOf (fst (handleUserChoice ?right (Num 1) ?app)) = [''main''] \<and>
      toolRuns (fst (snd (handleUserChoice ?right (Num 1) ?app))) = 0"
    using picker_back_and_home [where app = ?app and c = "Num 1" and menuItem = ?item
        and env = ?right, THEN conjunct1] item r
    by blast
  have run: "toolRuns (fst (snd (handleUserChoice ?enter (Num 1) ?app))) = 1"
    using picker_back_and_home [where app = ?app and c = "Num 1" and menuItem = ?item
        and env = ?enter, THEN conjunct1] item e
    by blast
  from bk hm run show ?thesis
    by blast
qed

lemma spawn_running: "spawn r ch = ChildRunning \<Longrightarrow> ch = ChildRunning"
  by (simp add: spawn_def split: resolved.splits if_splits)

text \<open>
  C9: whenever the child process does not stay running, \<open>executeTool\<close> returns normally
  (it throws nothing) and the last thing it does is the prompt to press Enter to
  return to the menu. An exit code other than 0 is printed, and so is the message of an
  error event or of an error thrown by \<^verbatim>\<open>spawn\<close>. Seen from the navigator:
  \<open>handleUserChoice\<close> on an executable item, the picker being disabled, returns normally
  with the application state unchanged, the Enter prompt being its last event.
\<close>

theorem executeTool_returns:
  "(ch \<noteq> ChildRunning \<longrightarrow>
      snd (executeTool toolPath arch dir os ch) = Normal \<and>
      last (fst (executeTool toolPath arch dir os ch)) = WaitForEnterReturnMenu) \<and>
   (\<forall>code. spawn (resolvePath toolPath (architectureOf arch os)) ch = ChildClose code \<and>
      code \<noteq> Some 0 \<longrightarrow>
      Print (CommandExitCode code) \<in> set (fst (executeTool toolPath arch dir os ch))) \<and>
   (\<forall>msg. spawn (resolvePath toolPath (architectureOf arch os)) ch = ChildError msg \<or>
      spawn (resolvePath toolPath (architectureOf arch os)) ch = SpawnThrows msg \<longrightarrow>
      Print (CommandError msg) \<in> set (fst (executeTool toolPath arch dir os ch))) \<and>
   (getMenuItem (menuController app) (getCurrentMenu (menuController app)) c = Some menuItem \<and>
    type menuItem = ''executable'' \<and> \<not> archPickerEnabled (settingsConfig app) \<and>
    childProcess env \<noteq> ChildRunning \<longrightarrow>
      fst (handleUserChoice env c app) = app \<and>
      snd (snd (handleUserChoice env c app)) = Normal \<and>
      last (fst (snd (handleUserChoice env c app))) = WaitForEnterReturnMenu)"
proof (intro conjI impI allI)
  assume run: "ch \<noteq> ChildRunning"
  then have "spawn (resolvePath toolPath (architectureOf arch os)) ch \<noteq> ChildRunning"
    using spawn_running by blast
  then show "snd (executeTool toolPath arch dir os ch) = Normal"
    and "last (fst (executeTool toolPath arch dir os ch)) = WaitForEnterReturnMenu"
    by (simp_all add: executeTool_def Let_def split: child.splits)
next
  fix code
  assume "spawn (resolvePath toolPath (architectureOf arch os)) ch = ChildClose code \<and>
      code \<noteq> Some 0"
  then show "Print (CommandExitCode code) \<in> set (fst (executeTool toolPath arch dir os ch))"
    by (simp add: executeTool_def Let_def)
next
  fix msg
  assume "spawn (resolvePath toolPath (architectureOf arch os)) ch = ChildError msg \<or>
      spawn (resolvePath toolPath (architectureOf arch os)) ch = SpawnThrows msg"
  then show "Print (CommandError msg) \<in> set (fst (executeTool toolPath arch dir os ch))"
    by (auto simp: executeTool_def Let_def)
next
  assume h: "getMenuItem (menuController app) (getCurrentMenu (menuController app)) c = Some menuItem \<and>
    type menuItem = ''executable'' \<and> \<not> archPickerEnabled (settingsConfig app) \<and>
    childProcess env \<noteq> ChildRunning"
  then have call: "handleUserChoice env c app =
      (app, executeTool (path menuItem) (Some (getSystemArchitecture (osArch env)))
              (toolPackageDir app) (osArch env) (childProcess env))"
    by (simp add: handleUserChoice_def runTool_def)
  from h have "spawn (resolvePath (path menuItem)
      (architectureOf (Some (getSystemArchitecture (osArch env))) (osArch env)))
      (childProcess env) \<noteq> ChildRunning"
    using spawn_running by blast
  then have "snd (executeTool (path menuItem) (Some (getSystemArchitecture (osArch env)))
              (toolPackageDir app) (osArch env) (childProcess env)) = Normal \<and>
      last (fst (executeTool (path menuItem) (Some (getSystemArchitecture (osArch env)))
              (toolPackageDir app) (osArch env) (childProcess env))) = WaitForEnterReturnMenu"
    by (simp add: executeTool_def Let_def split: child.splits)
  with call show "fst (handleUserChoice env c app) = app"
    and "snd (snd (handleUserChoice env c app)) = Normal"
    and "last (fst (snd (handleUserChoice env c app))) = WaitForEnterReturnMenu"
    by simp_all
qed

theorem executeTool_returns_witness:
  "executeTool (Some (PathString ''furmark'')) (Some ''X86_64'') (Some ''/tools'') ''x64''
     (ChildClose (Some 3)) =
     ([Print (RunningCommand ''X86_64'' (Str ''furmark'')), Spawn (Str ''furmark'') (Some ''/tools''),
       Print (CommandExitCode (Some 3)), WaitForEnterReturnMenu], Normal) \<and>
   snd (executeTool (Some (PathString ''furmark'')) (Some ''X86_64'') (Some ''/tools'') ''x64''
     (ChildError ''spawn furmark ENOENT'')) = Normal \<and>
   Print (CommandError ''ERR_INVALID_ARG_TYPE'') \<in>
     set (fst (executeTool (Some (PathObject [])) (Some ''X86_64'') (Some ''/tools'') ''x64''
       (ChildClose (Some 0)))) \<and>
   snd (snd (handleUserChoice (exampleEnv '''' [] [] (ChildClose (Some 3))) (Num 1)
     (exampleApp ''num_input'' False))) = Normal"
proof -
  let ?app = "exampleApp ''num_input'' False"
  let ?env = "exampleEnv '''' [] [] (ChildClose (Some 3))"
  let ?item = "\<lparr>itemId = 1, name = ''FurMark'', type = ''executable'',
                 submenu = None, path = Some (PathString ''furmark'')\<rparr>"
  have direct: "executeTool (Some (PathString ''furmark'')) (Some ''X86_64'') (Some ''/tools'') ''x64''
     (ChildClose (Some 3)) =
     ([Print (RunningCommand ''X86_64'' (Str ''furmark'')), Spawn (Str ''furmark'') (Some ''/tools''),
       Print (CommandExitCode (Some 3)), WaitForEnterReturnMenu], Normal)"
    by code_simp
  have a: "ChildError ''spawn furmark ENOENT'' \<noteq> ChildRunning" by simp
  have b: "spawn (resolvePath (Some (PathObject [])) (architectureOf (Some ''X86_64'') ''x64''))
      (ChildClose (Some 0)) = SpawnThrows ''ERR_INVALID_ARG_TYPE''"
    by code_simp
  have c: "getMenuItem (menuController ?app) (getCurrentMenu (menuController ?app)) (Num 1)
      = Some ?item \<and> type ?item = ''executable'' \<and> \<not> archPickerEnabled (settingsConfig ?app) \<and>
      childProcess ?env \<noteq> ChildRunning"
    by code_simp
  show ?thesis
    using direct
      executeTool_returns [where ch = "ChildError ''spawn furmark ENOENT''"
        and toolPath = "Some (PathString ''furmark'')" and arch = "Some ''X86_64''"
        and dir = "Some ''/tools''" and os = "''x64''"] a
      executeTool_returns [where ch = "ChildClose (Some 0)"
        and toolPath = "Some (PathObject [])" and arch = "Some ''X86_64''"
        and dir = "Some ''/tools''" and os = "''x64''"] b
      executeTool_returns [where app = ?app and env = ?env and c = "Num 1" and menuItem = ?item] c
    by blast
qed

lemma getMenuItem_missing:
  "getProperty (mc_config mc) menuId = Absent \<Longrightarrow> getMenuItem mc menuId c = None"
  by (simp add: getMenuItem_def NumMenuEngine_getMenuItem_def ArrowMenuEngine_getMenuItem_def)

text \<open>
  C2, as amended: the selection of a submenu-type item pushes the referenced submenu id
  onto the NavigationStack whether or not the menu tree has a menu of that id, and
  reports nothing. While the current menu is one the tree does not have, every
  selection is reported as an invalid selection with the state unchanged, and each
  round of the interactive strategy reports that the menu does not exist, again with
  the state unchanged.
\<close>

theorem submenu_pushed_unchecked:
  "(getMenuItem (menuController app) (getCurrentMenu (menuController app)) c = Some menuItem \<and>
    type menuItem = ''submenu'' \<longrightarrow>
      handleUserChoice env c app =
        (app\<lparr>menuController :=
           setCurrentMenu (propertyKey (submenu menuItem)) (menuController app)\<rparr>, [], Normal) \<and>
      stackOf (fst (handleUserChoice env c app)) = stackOf app @ [propertyKey (submenu menuItem)]) \<and>
   (getProperty (mc_config (menuController app)) (getCurrentMenu (menuController app)) = Absent \<longrightarrow>
      handleUserChoice env c app = (app, [Print InvalidSelection, WaitForEnter], Normal)) \<and>
   (getProperty (mc_config (menuController app)) (getCurrentMenu (menuController app)) = Absent \<and>
    inputMethodOf (Some (settingsConfig app)) \<noteq> ''num_input'' \<longrightarrow>
      loopRound env app =
        (app, [Print (MenuNotFound (getCurrentMenu (menuController app))), Print EmptyInput,
               WaitForEnter], Normal))"
proof (intro conjI impI)
  assume h: "getMenuItem (menuController app) (getCurrentMenu (menuController app)) c = Some menuItem \<and>
    type menuItem = ''submenu''"
  then show push: "handleUserChoice env c app =
        (app\<lparr>menuController :=
           setCurrentMenu (propertyKey (submenu menuItem)) (menuController app)\<rparr>, [], Normal)"
    by (simp add: handleUserChoice_def)
  then show "stackOf (fst (handleUserChoice env c app)) =
      stackOf app @ [propertyKey (submenu menuItem)]"
    by (simp add: stackOf_def setCurrentMenu_stack)
next
  assume "getProperty (mc_config (menuController app)) (getCurrentMenu (menuController app)) = Absent"
  then show "handleUserChoice env c app = (app, [Print InvalidSelection, WaitForEnter], Normal)"
    by (simp add: handleUserChoice_def getMenuItem_missing)
next
  assume "getProperty (mc_config (menuController app)) (getCurrentMenu (menuController app)) = Absent \<and>
    inputMethodOf (Some (settingsConfig app)) \<noteq> ''num_input''"
  then show "loopRound env app =
        (app, [Print (MenuNotFound (getCurrentMenu (menuController app))), Print EmptyInput,
               WaitForEnter], Normal)"
    by (simp add: loopRound_def interactiveRound_def displayInteractiveMenu_def falsy_def
          catchError_def)
qed

theorem submenu_pushed_unchecked_witness:
  "stackOf (fst (handleUserChoice (exampleEnv '''' [] [] ChildRunning) (Num 4)
     (exampleApp ''arrow_input'' False))) = [''main'', ''gpu'', ''cpu''] \<and>
   loopRound (exampleEnv '''' [downArrow, [CHR 0x0D]] [] ChildRunning)
     ((exampleApp ''arrow_input'' False)\<lparr>menuController :=
        setCurrentMenu ''cpu'' (menuController (exampleApp ''arrow_input'' False))\<rparr>) =
     ((exampleApp ''arrow_input'' False)\<lparr>menuController :=
        setCurrentMenu ''cpu'' (menuController (exampleApp ''arrow_input'' False))\<rparr>,
      [Print (MenuNotFound ''cpu''), Print EmptyInput, WaitForEnter], Normal)"
proof -
  let ?app = "exampleApp ''arrow_input'' False"
  let ?lost = "?app\<lparr>menuController := setCurrentMenu ''cpu'' (menuController ?app)\<rparr>"
  let ?item = "\<lparr>itemId = 4, name = ''CPU'', type = ''submenu'',
                 submenu = Some ''cpu'', path = None\<rparr>"
  have a: "getMenuItem (menuController ?app) (getCurrentMenu (menuController ?app)) (Num 4)
      = Some ?item \<and> type ?item = ''submenu''"
    by code_simp
  have s: "stackOf ?app @ [propertyKey (submenu ?item)] = [''main'', ''gpu'', ''cpu'']"
    by code_simp
  have b: "getProperty (mc_config (menuController ?lost)) (getCurrentMenu (menuController ?lost))
      = Absent \<and> inputMethodOf (Some (settingsConfig ?lost)) \<noteq> ''num_input''"
    by code_simp
  have cur: "getCurrentMenu (menuController ?lost) = ''cpu''"
    by code_simp
  have p: "stackOf (fst (handleUserChoice (exampleEnv '''' [] [] ChildRunning) (Num 4) ?app)) =
      stackOf ?app @ [propertyKey (submenu ?item)]"
    using submenu_pushed_unchecked [where app = ?app and c = "Num 4" and menuItem = ?item
        and env = "exampleEnv '''' [] [] ChildRunning"] a
    by blast
  have q: "loopRound (exampleEnv '''' [downArrow, [CHR 0x0D]] [] ChildRunning) ?lost =
      (?lost, [Print (MenuNotFound (getCurrentMenu (menuController ?lost))), Print EmptyInput,
               WaitForEnter], Normal)"
    using submenu_pushed_unchecked [where app = ?lost
        and env = "exampleEnv '''' [downArrow, [CHR 0x0D]] [] ChildRunning"] b
    by blast
  from p q show ?thesis
    unfolding s cur by blast
qed

text \<open>
  C2 as stated fails: the tree has no menu \<^verbatim>\<open>cpu\<close>, the item 4 of the menu \<^verbatim>\<open>gpu\<close> refers to
  it, and its selection reports nothing and pushes \<^verbatim>\<open>cpu\<close>.
\<close>

theorem missing_submenu_pushed_counterexample:
  "getProperty exampleTree ''cpu'' = (Absent :: MenuDefinition property) \<and>
   stackOf (exampleApp ''arrow_input'' False) = [''main'', ''gpu''] \<and>
   handleUserChoice (exampleEnv '''' [] [] ChildRunning) (Num 4) (exampleApp ''arrow_input'' False) =
     ((exampleApp ''arrow_input'' False)\<lparr>menuController :=
        setCurrentMenu ''cpu'' (menuController (exampleApp ''arrow_input'' False))\<rparr>, [], Normal) \<and>
   stackOf (fst (handleUserChoice (exampleEnv '''' [] [] ChildRunning) (Num 4)
     (exampleApp ''arrow_input'' False))) = [''main'', ''gpu'', ''cpu'']"
  by code_simp

end
